theory Spec2Isabelle
  imports Complex_Main "HOL-Library.AList"
begin

section \<open>Data model\<close>

text \<open>
  The model lifecycle core of the text classifier: the registry file written by
  \<^verbatim>\<open>ModelTrainer\<close> (src/models/trainer.py), the predictor that loads a bundle from the
  registry and serves predictions (src/api/predictor.py), and the batch endpoint of the
  HTTP service (src/api/main.py).

  Python floats are modelled as \<^typ>\<open>real\<close> (no NaN, no rounding); Python exceptions are
  values of the type \<open>exn\<close>; every operation returns its outcome together with the
  state it leaves behind and the calls it made to its logger and to the loaded
  TensorFlow objects.
\<close>

subsection \<open>Exceptions\<close>

datatype exn =
    FileNotFoundError string
  | JSONDecodeError
  | UnpicklingError
  | KeyError string
  | IndexError
  | TypeError
  | AttributeError string
  | ValueError
  | NotFittedError
  | FrameworkError string
  | RuntimeError_not_loaded
  | RuntimeError_predict exn
  | RuntimeError_batch exn
  | HTTPException nat detail
and detail =
    Detail_not_loaded
  | Detail_missing_texts
  | Detail_batch_limit
  | Detail_batch_failed exn

text \<open>
  \<open>RuntimeError_not_loaded\<close> is the \<^verbatim>\<open>RuntimeError\<close> raised by the guard of
  \<^verbatim>\<open>predict\<close> and \<^verbatim>\<open>predict_batch\<close>; \<open>RuntimeError_predict e\<close> and
  \<open>RuntimeError_batch e\<close> are the ones their handlers raise from an exception \<open>e\<close>.
  \<open>FrameworkError\<close> is any exception raised inside TensorFlow.
  \<open>HTTPException code detail\<close> is FastAPI's; \<open>detail\<close> names the four messages of the
  batch endpoint (the last one quotes the exception it was raised from).
\<close>

subsection \<open>Registry records\<close>

record model_info =
  model_version :: string
  model_type :: string
  framework :: string
  val_accuracy :: real
  vocab_size :: int
  num_classes :: int
  classes :: "string list"
  max_sequence_length :: int
  training_config :: "(string \<times> string) list"
  created_at :: string
  model_path :: string
  status :: string

record registry =
  models :: "model_info list"
  latest :: "string option"

subsection \<open>Loaded objects\<close>

text \<open>
  A vectorised batch is one integer row per text. The TextVectorization layer and the
  Keras model are opaque handles: calling them yields a value or raises.
  A label encoder has the attribute \<^verbatim>\<open>classes_\<close> (here \<open>encoder_classes\<close>) only once it
  has been fitted.
\<close>

type_synonym tensor = "int list list"

datatype tf_vectorize_layer = TextVectorization (call_layer: "string list \<Rightarrow> exn + tensor")

datatype tf_keras_model = Keras_model (model_predict: "tensor \<Rightarrow> exn + real list list")

datatype sk_label_encoder = LabelEncoder (encoder_classes: "string list option")

record vectorize_cfg =
  max_tokens :: "int option"
  output_mode :: "string option"
  output_sequence_length :: "int option"
  vocabulary :: "string list option"

text \<open>
  The fields of a parsed \<^verbatim>\<open>vectorize_config.json\<close> are optional: a missing key raises
  \<^verbatim>\<open>KeyError\<close> when \<^verbatim>\<open>_create_vectorize_layer\<close> reads it.
\<close>

subsection \<open>Files\<close>

datatype file_content =
    Registry_json registry
  | Config_json vectorize_cfg
  | Keras_file tf_keras_model
  | Pickle_file sk_label_encoder
  | Unparsable

type_synonym filesystem = "string \<Rightarrow> file_content option"

definition path_join :: "string \<Rightarrow> string \<Rightarrow> string" where
  "path_join dir name = dir @ ''/'' @ name"

definition exists :: "filesystem \<Rightarrow> string \<Rightarrow> bool" where
  "exists fs path = (fs path \<noteq> None)"

text \<open>
  \<^verbatim>\<open>open\<close> followed by \<^verbatim>\<open>json.load\<close> and the access to the key \<^verbatim>\<open>models\<close>: a missing
  file raises \<^verbatim>\<open>FileNotFoundError\<close>, content that is no JSON raises the decoder's error,
  JSON of another shape has no key \<^verbatim>\<open>models\<close>.
\<close>

definition json_load_registry :: "filesystem \<Rightarrow> string \<Rightarrow> exn + registry" where
  "json_load_registry fs path =
     (case fs path of
        None \<Rightarrow> Inl (FileNotFoundError path)
      | Some (Registry_json r) \<Rightarrow> Inr r
      | Some (Config_json c) \<Rightarrow> Inl (KeyError ''models'')
      | Some _ \<Rightarrow> Inl JSONDecodeError)"

definition json_load_config :: "filesystem \<Rightarrow> string \<Rightarrow> exn + vectorize_cfg" where
  "json_load_config fs path =
     (case fs path of
        None \<Rightarrow> Inl (FileNotFoundError path)
      | Some (Config_json c) \<Rightarrow> Inr c
      | Some (Registry_json r) \<Rightarrow> Inr \<lparr>max_tokens = None, output_mode = None,
            output_sequence_length = None, vocabulary = None\<rparr>
      | Some _ \<Rightarrow> Inl JSONDecodeError)"

definition pickle_load :: "filesystem \<Rightarrow> string \<Rightarrow> exn + sk_label_encoder" where
  "pickle_load fs path =
     (case fs path of
        None \<Rightarrow> Inl (FileNotFoundError path)
      | Some (Pickle_file le) \<Rightarrow> Inr le
      | Some _ \<Rightarrow> Inl UnpicklingError)"

definition keras_load_model :: "filesystem \<Rightarrow> string \<Rightarrow> exn + tf_keras_model" where
  "keras_load_model fs path =
     (case fs path of
        None \<Rightarrow> Inl (FrameworkError path)
      | Some (Keras_file m) \<Rightarrow> Inr m
      | Some _ \<Rightarrow> Inl (FrameworkError path))"

subsection \<open>Logger and framework calls\<close>

datatype log_msg =
    Msg_registry_missing
  | Msg_no_models
  | Msg_load_best_failed exn
  | Msg_predict_failed exn
  | Msg_batch_predict_failed exn
  | Msg_version_missing string
  | Msg_load_version_failed string exn
  | Msg_loading string
  | Msg_model_file_missing string
  | Msg_loaded "string list"
  | Msg_load_failed exn
  | Msg_list_failed exn
  | Msg_unloaded
  | Msg_registry_updated string
  | Msg_best_loaded string

datatype event =
    Log_info log_msg
  | Log_error log_msg
  | Call_vectorize "string list"
  | Call_model_predict tensor

section \<open>ModelTrainer: the registry file\<close>

record model_trainer =
  trainer_registry_path :: string
  trainer_model :: "tf_keras_model option"
  trainer_label_encoder :: "sk_label_encoder option"

text \<open>
  \<^verbatim>\<open>list.sort(key=..., reverse=True)\<close>: a stable sort in descending order of the key;
  CPython reverses the list, sorts it stably in ascending order and reverses it again.
\<close>

definition py_sort_reverse :: "('a \<Rightarrow> real) \<Rightarrow> 'a list \<Rightarrow> 'a list" where
  "py_sort_reverse key xs = rev (sort_key key (rev xs))"

definition update_model_registry ::
  "model_trainer \<Rightarrow> filesystem \<Rightarrow> model_info \<Rightarrow> (exn + unit) \<times> filesystem \<times> event list" where
  "update_model_registry self fs info =
     (let registry_file = path_join (trainer_registry_path self) ''registry.json'' in
      case (if exists fs registry_file then json_load_registry fs registry_file
            else Inr \<lparr>models = [], latest = None\<rparr>) of
        Inl e \<Rightarrow> (Inl e, fs, [])
      | Inr registry \<Rightarrow>
          let r1 = registry\<lparr>models := models registry @ [info]\<rparr>;
              r2 = r1\<lparr>latest := Some (model_version info)\<rparr>;
              r3 = r2\<lparr>models := py_sort_reverse val_accuracy (models r2)\<rparr>
          in (Inr (), fs(registry_file \<mapsto> Registry_json r3),
              [Log_info (Msg_registry_updated (model_version info))]))"


text \<open>
  \<^verbatim>\<open>ModelTrainer.load_best_model\<close>: no handler, the exceptions reach the caller. The
  \<^verbatim>\<open>FileNotFoundError\<close> it raises itself carries the message that the registry does not
  exist (\<open>''registry''\<close> here), the \<^verbatim>\<open>ValueError\<close> the message that there is no model.
\<close>

definition trainer_load_best_model ::
  "model_trainer \<Rightarrow> filesystem \<Rightarrow> (exn + tf_keras_model) \<times> model_trainer \<times> event list" where
  "trainer_load_best_model self fs =
     (let registry_file = path_join (trainer_registry_path self) ''registry.json'' in
      if \<not> exists fs registry_file then (Inl (FileNotFoundError ''registry''), self, [])
      else case json_load_registry fs registry_file of
        Inl e \<Rightarrow> (Inl e, self, [])
      | Inr registry \<Rightarrow>
          (case models registry of
             [] \<Rightarrow> (Inl ValueError, self, [])
           | best_model_info # _ \<Rightarrow>
               (case keras_load_model fs (path_join (model_path best_model_info) ''model.keras'') of
                  Inl e \<Rightarrow> (Inl e, self, [])
                | Inr m \<Rightarrow>
                    let self1 = self\<lparr>trainer_model := Some m\<rparr> in
                    (case pickle_load fs (path_join (model_path best_model_info) ''label_encoder.pkl'') of
                       Inl e \<Rightarrow> (Inl e, self1, [])
                     | Inr le \<Rightarrow>
                         (Inr m, self1\<lparr>trainer_label_encoder := Some le\<rparr>,
                          [Log_info (Msg_best_loaded (model_version best_model_info))])))))"

section \<open>ModelPredictor\<close>

record model_predictor =
  model_registry_path :: string
  model :: "tf_keras_model option"
  label_encoder :: "sk_label_encoder option"
  vectorize_config :: "vectorize_cfg option"
  vectorize_layer :: "tf_vectorize_layer option"
  loaded :: bool

definition init_predictor :: "string \<Rightarrow> model_predictor" where
  "init_predictor path =
     \<lparr>model_registry_path = path, model = None, label_encoder = None,
      vectorize_config = None, vectorize_layer = None, loaded = False\<rparr>"

text \<open>
  The constructor \<^verbatim>\<open>tf.keras.layers.TextVectorization(max_tokens, output_mode,
  output_sequence_length, vocabulary)\<close> belongs to the framework: it is a parameter of
  the loader, and it may raise.
\<close>

type_synonym text_vectorization =
  "int \<Rightarrow> string \<Rightarrow> int \<Rightarrow> string list \<Rightarrow> exn + tf_vectorize_layer"

definition create_vectorize_layer ::
  "text_vectorization \<Rightarrow> model_predictor \<Rightarrow> exn + model_predictor" where
  "create_vectorize_layer tv self =
     (case vectorize_config self of
        None \<Rightarrow> Inl TypeError
      | Some cfg \<Rightarrow>
          (case max_tokens cfg of
             None \<Rightarrow> Inl (KeyError ''max_tokens'')
           | Some mt \<Rightarrow>
          (case output_mode cfg of
             None \<Rightarrow> Inl (KeyError ''output_mode'')
           | Some om \<Rightarrow>
          (case output_sequence_length cfg of
             None \<Rightarrow> Inl (KeyError ''output_sequence_length'')
           | Some osl \<Rightarrow>
          (case vocabulary cfg of
             None \<Rightarrow> Inl (KeyError ''vocabulary'')
           | Some voc \<Rightarrow>
          (case tv mt om osl voc of
             Inl e \<Rightarrow> Inl e
           | Inr layer \<Rightarrow> Inr (self\<lparr>vectorize_layer := Some layer\<rparr>)))))))"

text \<open>\<^verbatim>\<open>model_info['model_path'].replace('\\', '/')\<close>\<close>

definition replace_backslash :: "string \<Rightarrow> string" where
  "replace_backslash s = map (\<lambda>c. if c = CHR 0x5C then CHR ''/'' else c) s"

text \<open>
  \<^verbatim>\<open>_load_model_from_info\<close>. The first definition is the body of its \<^verbatim>\<open>try\<close>: the
  fields of \<open>self\<close> are assigned one after the other, and an exception leaves the
  assignments made so far in place. The second one adds the handler, which logs the
  exception and returns \<^verbatim>\<open>False\<close>.
\<close>

definition load_model_from_info_try ::
  "text_vectorization \<Rightarrow> filesystem \<Rightarrow> model_predictor \<Rightarrow> model_info
     \<Rightarrow> (exn + bool) \<times> model_predictor \<times> event list" where
  "load_model_from_info_try tv fs self info =
     (let model_path_str = replace_backslash (model_path info);
          ev = [Log_info (Msg_loading (model_version info))];
          model_file = path_join model_path_str ''model.keras''
      in
      if \<not> exists fs model_file
      then (Inr False, self, ev @ [Log_error (Msg_model_file_missing model_file)])
      else
        (case keras_load_model fs model_file of
           Inl e \<Rightarrow> (Inl e, self, ev)
         | Inr m \<Rightarrow>
             let self1 = self\<lparr>model := Some m\<rparr> in
             (case pickle_load fs (path_join model_path_str ''label_encoder.pkl'') of
                Inl e \<Rightarrow> (Inl e, self1, ev)
              | Inr le \<Rightarrow>
                  let self2 = self1\<lparr>label_encoder := Some le\<rparr> in
                  (case json_load_config fs (path_join model_path_str ''vectorize_config.json'') of
                     Inl e \<Rightarrow> (Inl e, self2, ev)
                   | Inr cfg \<Rightarrow>
                       let self3 = self2\<lparr>vectorize_config := Some cfg\<rparr> in
                       (case create_vectorize_layer tv self3 of
                          Inl e \<Rightarrow> (Inl e, self3, ev)
                        | Inr self4 \<Rightarrow>
                            let self5 = self4\<lparr>loaded := True\<rparr> in
                            (case encoder_classes le of
                               None \<Rightarrow> (Inl (AttributeError ''classes_''), self5, ev)
                             | Some cs \<Rightarrow>
                                 (Inr True, self5, ev @ [Log_info (Msg_loaded cs)])))))))"

definition load_model_from_info ::
  "text_vectorization \<Rightarrow> filesystem \<Rightarrow> model_predictor \<Rightarrow> model_info
     \<Rightarrow> (exn + bool) \<times> model_predictor \<times> event list" where
  "load_model_from_info tv fs self info =
     (case load_model_from_info_try tv fs self info of
        (Inl e, self', ev) \<Rightarrow> (Inr False, self', ev @ [Log_error (Msg_load_failed e)])
      | (Inr b, self', ev) \<Rightarrow> (Inr b, self', ev))"

text \<open>\<^verbatim>\<open>load_best_model\<close>: body of the \<^verbatim>\<open>try\<close>, then the handler.\<close>

definition load_best_model_try ::
  "text_vectorization \<Rightarrow> filesystem \<Rightarrow> model_predictor
     \<Rightarrow> (exn + bool) \<times> model_predictor \<times> event list" where
  "load_best_model_try tv fs self =
     (let registry_file = path_join (model_registry_path self) ''registry.json'' in
      if \<not> exists fs registry_file
      then (Inr False, self, [Log_error Msg_registry_missing])
      else
        (case json_load_registry fs registry_file of
           Inl e \<Rightarrow> (Inl e, self, [])
         | Inr registry \<Rightarrow>
             (case models registry of
                [] \<Rightarrow> (Inr False, self, [Log_error Msg_no_models])
              | best_model_info # _ \<Rightarrow> load_model_from_info tv fs self best_model_info)))"

definition load_best_model ::
  "text_vectorization \<Rightarrow> filesystem \<Rightarrow> model_predictor
     \<Rightarrow> (exn + bool) \<times> model_predictor \<times> event list" where
  "load_best_model tv fs self =
     (case load_best_model_try tv fs self of
        (Inl e, self', ev) \<Rightarrow> (Inr False, self', ev @ [Log_error (Msg_load_best_failed e)])
      | (Inr b, self', ev) \<Rightarrow> (Inr b, self', ev))"

text \<open>
  \<^verbatim>\<open>load_model_by_version\<close>: the \<^verbatim>\<open>for\<close> loop with \<^verbatim>\<open>break\<close> keeps the first entry of
  the list with the version asked for.
\<close>

definition load_model_by_version_try ::
  "text_vectorization \<Rightarrow> filesystem \<Rightarrow> model_predictor \<Rightarrow> string
     \<Rightarrow> (exn + bool) \<times> model_predictor \<times> event list" where
  "load_model_by_version_try tv fs self version =
     (let registry_file = path_join (model_registry_path self) ''registry.json'' in
      if \<not> exists fs registry_file
      then (Inr False, self, [Log_error Msg_registry_missing])
      else
        (case json_load_registry fs registry_file of
           Inl e \<Rightarrow> (Inl e, self, [])
         | Inr registry \<Rightarrow>
             (case find (\<lambda>model_info. model_version model_info = version) (models registry) of
                None \<Rightarrow> (Inr False, self, [Log_error (Msg_version_missing version)])
              | Some target_model \<Rightarrow> load_model_from_info tv fs self target_model)))"

definition load_model_by_version ::
  "text_vectorization \<Rightarrow> filesystem \<Rightarrow> model_predictor \<Rightarrow> string
     \<Rightarrow> (exn + bool) \<times> model_predictor \<times> event list" where
  "load_model_by_version tv fs self version =
     (case load_model_by_version_try tv fs self version of
        (Inl e, self', ev) \<Rightarrow>
          (Inr False, self', ev @ [Log_error (Msg_load_version_failed version e)])
      | (Inr b, self', ev) \<Rightarrow> (Inr b, self', ev))"

definition get_available_models ::
  "filesystem \<Rightarrow> model_predictor \<Rightarrow> (exn + model_info list) \<times> event list" where
  "get_available_models fs self =
     (let registry_file = path_join (model_registry_path self) ''registry.json'' in
      if \<not> exists fs registry_file then (Inr [], [])
      else
        (case json_load_registry fs registry_file of
           Inl e \<Rightarrow> (Inr [], [Log_error (Msg_list_failed e)])
         | Inr registry \<Rightarrow> (Inr (models registry), [])))"

definition unload_model :: "model_predictor \<Rightarrow> model_predictor \<times> event list" where
  "unload_model self =
     (if loaded self
      then (self\<lparr>model := None, label_encoder := None, vectorize_config := None,
                 vectorize_layer := None, loaded := False\<rparr>, [Log_info Msg_unloaded])
      else (self, []))"

subsection \<open>Prediction\<close>

record prediction_item =
  item_text :: string
  predicted_class :: string
  confidence :: real
  class_probabilities :: "(string \<times> real) list"

record prediction_result = prediction_item +
  processing_time :: real

record batch_result =
  results :: "prediction_item list"
  total_texts :: nat
  batch_processing_time :: real

text \<open>
  The dictionaries returned by \<^verbatim>\<open>predict\<close> and \<^verbatim>\<open>predict_batch\<close>. A per-text entry
  of a batch has the keys of a single prediction without \<^verbatim>\<open>processing_time\<close>, so a single
  prediction is the record of an entry extended by that field. The key \<^verbatim>\<open>text\<close> is
  the field \<open>item_text\<close> and the key \<^verbatim>\<open>processing_time\<close> of a batch is the field
  \<open>batch_processing_time\<close>. \<^verbatim>\<open>class_probabilities\<close> is a Python dictionary: an
  association list in insertion order whose keys are distinct (\<open>AList.update\<close> overwrites
  the value of a key that is already there).
\<close>

text \<open>\<^verbatim>\<open>np.argmax\<close>: the first index of the maximum; an empty row raises.\<close>

definition np_argmax :: "real list \<Rightarrow> exn + nat" where
  "np_argmax row =
     (if row = [] then Inl ValueError
      else Inr (length (takeWhile (\<lambda>x. x \<noteq> Max (set row)) row)))"

text \<open>
  \<^verbatim>\<open>LabelEncoder.inverse_transform([idx])[0]\<close>: an index outside
  \<^verbatim>\<open>range(len(classes_))\<close> is an unseen label.
\<close>

definition inverse_transform :: "sk_label_encoder option \<Rightarrow> nat \<Rightarrow> exn + string" where
  "inverse_transform le idx =
     (case le of
        None \<Rightarrow> Inl (AttributeError ''inverse_transform'')
      | Some enc \<Rightarrow>
          (case encoder_classes enc of
             None \<Rightarrow> Inl NotFittedError
           | Some cs \<Rightarrow> if idx < length cs then Inr (cs ! idx) else Inl ValueError))"

definition get_classes :: "sk_label_encoder option \<Rightarrow> exn + string list" where
  "get_classes le =
     (case le of
        None \<Rightarrow> Inl (AttributeError ''classes_'')
      | Some enc \<Rightarrow>
          (case encoder_classes enc of
             None \<Rightarrow> Inl (AttributeError ''classes_'')
           | Some cs \<Rightarrow> Inr cs))"

text \<open>
  The loop \<^verbatim>\<open>for i, class_name in enumerate(classes_): class_probabilities[class_name] =
  float(row[i])\<close>; reading the row out of range raises \<^verbatim>\<open>IndexError\<close>.
\<close>

fun fill_class_probabilities ::
  "(string \<times> real) list \<Rightarrow> nat \<Rightarrow> string list \<Rightarrow> real list \<Rightarrow> exn + (string \<times> real) list" where
  "fill_class_probabilities acc i [] row = Inr acc"
| "fill_class_probabilities acc i (class_name # rest) row =
     (if i < length row
      then fill_class_probabilities (AList.update class_name (row ! i) acc) (Suc i) rest row
      else Inl IndexError)"

text \<open>
  The statements that turn one row of the model's output into the predicted class, the
  confidence and the dictionary of class probabilities (lines 77 to 84 of predictor.py for
  \<^verbatim>\<open>predictions[0]\<close>, and the same statements at lines 117 to 124 for \<^verbatim>\<open>predictions[i]\<close>).
\<close>

definition process_row ::
  "sk_label_encoder option \<Rightarrow> real list \<Rightarrow> exn + string \<times> real \<times> (string \<times> real) list" where
  "process_row le row =
     (case np_argmax row of
        Inl e \<Rightarrow> Inl e
      | Inr predicted_class_idx \<Rightarrow>
          (case inverse_transform le predicted_class_idx of
             Inl e \<Rightarrow> Inl e
           | Inr predicted \<Rightarrow>
               let conf = row ! predicted_class_idx in
               (case get_classes le of
                  Inl e \<Rightarrow> Inl e
                | Inr cs \<Rightarrow>
                    (case fill_class_probabilities [] 0 cs row of
                       Inl e \<Rightarrow> Inl e
                     | Inr probs \<Rightarrow> Inr (predicted, conf, probs)))))"

definition nth_row :: "real list list \<Rightarrow> nat \<Rightarrow> exn + real list" where
  "nth_row predictions i =
     (if i < length predictions then Inr (predictions ! i) else Inl IndexError)"

text \<open>
  \<^verbatim>\<open>predict\<close>. The two readings of \<^verbatim>\<open>time.time()\<close> are arguments. The body of the
  \<^verbatim>\<open>try\<close> comes first, then the guard and the handler.
\<close>

definition predict_try ::
  "model_predictor \<Rightarrow> real \<Rightarrow> real \<Rightarrow> string \<Rightarrow> (exn + prediction_result) \<times> event list" where
  "predict_try self start_time end_time txt =
     (case vectorize_layer self of
        None \<Rightarrow> (Inl TypeError, [])
      | Some layer \<Rightarrow>
          (case call_layer layer [txt] of
             Inl e \<Rightarrow> (Inl e, [Call_vectorize [txt]])
           | Inr vectorized_text \<Rightarrow>
               (case model self of
                  None \<Rightarrow> (Inl (AttributeError ''predict''), [Call_vectorize [txt]])
                | Some m \<Rightarrow>
                    let ev = [Call_vectorize [txt], Call_model_predict vectorized_text] in
                    (case model_predict m vectorized_text of
                       Inl e \<Rightarrow> (Inl e, ev)
                     | Inr predictions \<Rightarrow>
                         (case nth_row predictions 0 of
                            Inl e \<Rightarrow> (Inl e, ev)
                          | Inr row \<Rightarrow>
                              (case process_row (label_encoder self) row of
                                 Inl e \<Rightarrow> (Inl e, ev)
                               | Inr (predicted, conf, probs) \<Rightarrow>
                                   (Inr \<lparr>item_text = txt, predicted_class = predicted,
                                         confidence = conf, class_probabilities = probs,
                                         processing_time = end_time - start_time\<rparr>, ev)))))))"

definition predict ::
  "model_predictor \<Rightarrow> real \<Rightarrow> real \<Rightarrow> string \<Rightarrow> (exn + prediction_result) \<times> event list" where
  "predict self start_time end_time txt =
     (if \<not> loaded self then (Inl RuntimeError_not_loaded, [])
      else
        (case predict_try self start_time end_time txt of
           (Inl e, ev) \<Rightarrow> (Inl (RuntimeError_predict e), ev @ [Log_error (Msg_predict_failed e)])
         | (Inr r, ev) \<Rightarrow> (Inr r, ev)))"

text \<open>The loop \<^verbatim>\<open>for i, text in enumerate(texts)\<close> of \<^verbatim>\<open>predict_batch\<close>.\<close>

fun batch_loop ::
  "sk_label_encoder option \<Rightarrow> real list list \<Rightarrow> nat \<Rightarrow> string list \<Rightarrow> exn + prediction_item list" where
  "batch_loop le predictions i [] = Inr []"
| "batch_loop le predictions i (txt # texts) =
     (case nth_row predictions i of
        Inl e \<Rightarrow> Inl e
      | Inr row \<Rightarrow>
          (case process_row le row of
             Inl e \<Rightarrow> Inl e
           | Inr (predicted, conf, probs) \<Rightarrow>
               (case batch_loop le predictions (Suc i) texts of
                  Inl e \<Rightarrow> Inl e
                | Inr rest \<Rightarrow>
                    Inr (\<lparr>item_text = txt, predicted_class = predicted,
                          confidence = conf, class_probabilities = probs\<rparr> # rest))))"

definition predict_batch_try ::
  "model_predictor \<Rightarrow> real \<Rightarrow> real \<Rightarrow> string list \<Rightarrow> (exn + batch_result) \<times> event list" where
  "predict_batch_try self start_time end_time texts =
     (case vectorize_layer self of
        None \<Rightarrow> (Inl TypeError, [])
      | Some layer \<Rightarrow>
          (case call_layer layer texts of
             Inl e \<Rightarrow> (Inl e, [Call_vectorize texts])
           | Inr vectorized_texts \<Rightarrow>
               (case model self of
                  None \<Rightarrow> (Inl (AttributeError ''predict''), [Call_vectorize texts])
                | Some m \<Rightarrow>
                    let ev = [Call_vectorize texts, Call_model_predict vectorized_texts] in
                    (case model_predict m vectorized_texts of
                       Inl e \<Rightarrow> (Inl e, ev)
                     | Inr predictions \<Rightarrow>
                         (case batch_loop (label_encoder self) predictions 0 texts of
                            Inl e \<Rightarrow> (Inl e, ev)
                          | Inr rs \<Rightarrow>
                              (Inr \<lparr>results = rs, total_texts = length texts,
                                    batch_processing_time = end_time - start_time\<rparr>, ev))))))"

definition predict_batch ::
  "model_predictor \<Rightarrow> real \<Rightarrow> real \<Rightarrow> string list \<Rightarrow> (exn + batch_result) \<times> event list" where
  "predict_batch self start_time end_time texts =
     (if \<not> loaded self then (Inl RuntimeError_not_loaded, [])
      else
        (case predict_batch_try self start_time end_time texts of
           (Inl e, ev) \<Rightarrow> (Inl (RuntimeError_batch e), ev @ [Log_error (Msg_batch_predict_failed e)])
         | (Inr r, ev) \<Rightarrow> (Inr r, ev)))"

section \<open>The batch endpoint of the service\<close>

record batch_response = batch_result +
  timestamp :: string

text \<open>
  \<^verbatim>\<open>POST /predict/batch\<close> in main.py, on the global predictor. The request is a JSON
  object from keys to lists of strings; \<open>now\<close> is the time stamp put into the answer.
\<close>

definition predict_batch_endpoint_try ::
  "model_predictor \<Rightarrow> (string \<rightharpoonup> string list) \<Rightarrow> real \<Rightarrow> real \<Rightarrow> string
     \<Rightarrow> (exn + batch_response) \<times> event list" where
  "predict_batch_endpoint_try predictor request start_time end_time now =
     (if \<not> loaded predictor then (Inl (HTTPException 503 Detail_not_loaded), [])
      else
        (case request ''texts'' of
           None \<Rightarrow> (Inl (HTTPException 400 Detail_missing_texts), [])
         | Some texts \<Rightarrow>
             if length texts > 100 then (Inl (HTTPException 400 Detail_batch_limit), [])
             else
               (case predict_batch predictor start_time end_time texts of
                  (Inl e, ev) \<Rightarrow> (Inl e, ev)
                | (Inr result, ev) \<Rightarrow>
                    (Inr (batch_result.extend result \<lparr>timestamp = now\<rparr>), ev))))"

definition predict_batch_endpoint ::
  "model_predictor \<Rightarrow> (string \<rightharpoonup> string list) \<Rightarrow> real \<Rightarrow> real \<Rightarrow> string
     \<Rightarrow> (exn + batch_response) \<times> event list" where
  "predict_batch_endpoint predictor request start_time end_time now =
     (case predict_batch_endpoint_try predictor request start_time end_time now of
        (Inl (HTTPException code d), ev) \<Rightarrow> (Inl (HTTPException code d), ev)
      | (Inl e, ev) \<Rightarrow>
          (Inl (HTTPException 500 (Detail_batch_failed e)), ev @ [Log_error (Msg_batch_predict_failed e)])
      | (Inr r, ev) \<Rightarrow> (Inr r, ev))"

section \<open>Scenarios\<close>

text \<open>Concrete registries, artifacts and predictors on which the operations are run.\<close>

definition example_info :: "string \<Rightarrow> real \<Rightarrow> model_info" where
  "example_info version acc =
     \<lparr>model_version = version, model_type = ''chinese_text_classifier'',
      framework = ''tensorflow'', val_accuracy = acc, vocab_size = 3, num_classes = 2,
      classes = [''a'', ''b''], max_sequence_length = 4, training_config = [],
      created_at = ''2025-01-01T00:00:00'', model_path = ''models/registry/'' @ version,
      status = ''active''\<rparr>"

definition example_trainer :: model_trainer where
  "example_trainer =
     \<lparr>trainer_registry_path = ''models/registry'', trainer_model = None,
      trainer_label_encoder = None\<rparr>"

definition no_files :: filesystem where
  "no_files = (\<lambda>path. None)"

definition example_layer :: tf_vectorize_layer where
  "example_layer = TextVectorization (\<lambda>texts. Inr (map (\<lambda>t. [int (length t)]) texts))"

definition example_text_vectorization :: text_vectorization where
  "example_text_vectorization mt om osl voc = Inr example_layer"


definition registry_v1 :: filesystem where
  "registry_v1 =
     no_files(''models/registry/registry.json'' \<mapsto>
       Registry_json \<lparr>models = [example_info ''v1'' 0.80], latest = Some ''v1''\<rparr>)"

definition registry_v1_v1 :: filesystem where
  "registry_v1_v1 =
     no_files(''models/registry/registry.json'' \<mapsto>
       Registry_json \<lparr>models = [example_info ''v1'' 0.80, example_info ''v1'' 0.80],
                       latest = Some ''v1''\<rparr>)"

definition example_model :: tf_keras_model where
  "example_model = Keras_model (\<lambda>t. Inr (map (\<lambda>row. [0.2, 0.8]) t))"

definition other_model :: tf_keras_model where
  "other_model = Keras_model (\<lambda>t. Inr (map (\<lambda>row. [0.9, 0.1]) t))"

definition example_encoder :: sk_label_encoder where
  "example_encoder = LabelEncoder (Some [''a'', ''b''])"

definition other_encoder :: sk_label_encoder where
  "other_encoder = LabelEncoder (Some [''x'', ''y''])"

definition example_cfg :: vectorize_cfg where
  "example_cfg =
     \<lparr>max_tokens = Some 3, output_mode = Some ''int'', output_sequence_length = Some 4,
      vocabulary = Some ['''', ''[UNK]'', ''w'']\<rparr>"

text \<open>
  A registry of five versions. The artifacts of v1 are complete; v2 has a tokenizer
  configuration that is no JSON; v3 has weights only; v4 has weights that do not load
  and nothing else; v5 has weights and a label encoder but no tokenizer configuration.
\<close>

definition example_files :: filesystem where
  "example_files =
     no_files
      (''models/registry/registry.json'' \<mapsto>
         Registry_json \<lparr>models = [example_info ''v2'' 0.92, example_info ''v1'' 0.80,
                                   example_info ''v3'' 0.70, example_info ''v4'' 0.60,
                                   example_info ''v5'' 0.50],
                         latest = Some ''v5''\<rparr>,
       ''models/registry/v1/model.keras'' \<mapsto> Keras_file example_model,
       ''models/registry/v1/label_encoder.pkl'' \<mapsto> Pickle_file example_encoder,
       ''models/registry/v1/vectorize_config.json'' \<mapsto> Config_json example_cfg,
       ''models/registry/v2/model.keras'' \<mapsto> Keras_file other_model,
       ''models/registry/v2/label_encoder.pkl'' \<mapsto> Pickle_file other_encoder,
       ''models/registry/v2/vectorize_config.json'' \<mapsto> Unparsable,
       ''models/registry/v3/model.keras'' \<mapsto> Keras_file other_model,
       ''models/registry/v4/model.keras'' \<mapsto> Unparsable,
       ''models/registry/v5/model.keras'' \<mapsto> Keras_file other_model,
       ''models/registry/v5/label_encoder.pkl'' \<mapsto> Pickle_file other_encoder)"

definition predictor_v1 :: model_predictor where
  "predictor_v1 =
     \<lparr>model_registry_path = ''models/registry'', model = Some example_model,
      label_encoder = Some example_encoder, vectorize_config = Some example_cfg,
      vectorize_layer = Some example_layer, loaded = True\<rparr>"

definition corrupt_registry :: filesystem where
  "corrupt_registry = no_files(''models/registry/registry.json'' \<mapsto> Unparsable)"

definition unnormalised_model :: tf_keras_model where
  "unnormalised_model = Keras_model (\<lambda>t. Inr (map (\<lambda>row. [0.5, 0.2]) t))"

definition predictor_unnormalised :: model_predictor where
  "predictor_unnormalised =
     \<lparr>model_registry_path = ''models/registry'', model = Some unnormalised_model,
      label_encoder = Some example_encoder, vectorize_config = Some example_cfg,
      vectorize_layer = Some example_layer, loaded = True\<rparr>"




definition request_101 :: "string \<rightharpoonup> string list" where
  "request_101 = [''texts'' \<mapsto> replicate 101 ''a'']"

section \<open>The registry stays sorted\<close>



lemma set_py_sort_reverse: "set (py_sort_reverse key xs) = set xs"
  by (simp add: py_sort_reverse_def)

lemma length_py_sort_reverse: "length (py_sort_reverse key xs) = length xs"
  by (simp add: py_sort_reverse_def)



lemma json_load_registry_upd:
  "json_load_registry (fs(p \<mapsto> Registry_json r)) p = Inr r"
  by (simp add: json_load_registry_def)


lemma load_model_from_info_returns:
  "\<exists>b. fst (load_model_from_info tv fs self info) = Inr b"
  by (auto simp: load_model_from_info_def split: prod.splits sum.splits)

lemma load_best_model_selects:
  assumes "json_load_registry fs (path_join (model_registry_path p) ''registry.json'') = Inr registry"
    and "models registry \<noteq> []"
  shows "load_best_model tv fs p = load_model_from_info tv fs p (hd (models registry))"
proof -
  obtain b p' ev where r: "load_model_from_info tv fs p (hd (models registry)) = (Inr b, p', ev)"
    using load_model_from_info_returns [of tv fs p "hd (models registry)"]
    by (cases "load_model_from_info tv fs p (hd (models registry))") auto
  have ex: "exists fs (path_join (model_registry_path p) ''registry.json'')"
    using assms(1) by (auto simp: exists_def json_load_registry_def split: option.splits)
  obtain m ms where ms: "models registry = m # ms" using assms(2) by (cases "models registry") auto
  show ?thesis
    using r ex assms(1) ms
    by (simp add: load_best_model_def load_best_model_try_def)
qed





lemma update_model_registry_fresh:
  "\<not> exists fs (path_join (trainer_registry_path self) ''registry.json'') \<Longrightarrow>
   update_model_registry self fs info =
     (Inr (), fs(path_join (trainer_registry_path self) ''registry.json'' \<mapsto>
         Registry_json \<lparr>models = [info], latest = Some (model_version info)\<rparr>),
      [Log_info (Msg_registry_updated (model_version info))])"
  by (simp add: update_model_registry_def py_sort_reverse_def)

lemma update_model_registry_present:
  "fs (path_join (trainer_registry_path self) ''registry.json'') = Some (Registry_json old) \<Longrightarrow>
   update_model_registry self fs info =
     (Inr (), fs(path_join (trainer_registry_path self) ''registry.json'' \<mapsto>
         Registry_json \<lparr>models = py_sort_reverse val_accuracy (models old @ [info]),
                         latest = Some (model_version info)\<rparr>),
      [Log_info (Msg_registry_updated (model_version info))])"
  by (cases old) (simp add: update_model_registry_def exists_def json_load_registry_def)




section \<open>Appending an identifier that is already there\<close>

lemma filter_py_sort_reverse:
  "filter P (py_sort_reverse key xs) = py_sort_reverse key (filter P xs)"
proof -
  have "filter P (rev (sort_key key (rev xs))) = rev (filter P (sort_key key (rev xs)))"
    by (simp add: rev_filter)
  also have "\<dots> = rev (sort_key key (filter P (rev xs)))"
    by (simp add: filter_sort)
  also have "\<dots> = rev (sort_key key (rev (filter P xs)))"
    by (simp add: rev_filter)
  finally show ?thesis by (simp add: py_sort_reverse_def)
qed

text \<open>
  Claim C2 says that appending a version whose identifier is already in the registry
  fails with DuplicateVersion and leaves the stored sequence unchanged. The registry
  holds v1; appending v1 again returns normally and the file then holds v1 twice.
\<close>

theorem duplicate_append_counterexample:
  "json_load_registry registry_v1 ''models/registry/registry.json''
     = Inr \<lparr>models = [example_info ''v1'' 0.80], latest = Some ''v1''\<rparr>
   \<and> fst (update_model_registry example_trainer registry_v1 (example_info ''v1'' 0.80)) = Inr ()
   \<and> fst (snd (update_model_registry example_trainer registry_v1 (example_info ''v1'' 0.80)))
       = registry_v1_v1
   \<and> registry_v1_v1 \<noteq> registry_v1"
proof -
  have a: "json_load_registry registry_v1 ''models/registry/registry.json''
     = Inr \<lparr>models = [example_info ''v1'' 0.80], latest = Some ''v1''\<rparr>"
    by (simp add: registry_v1_def json_load_registry_def)
  have f: "registry_v1 (path_join (trainer_registry_path example_trainer) ''registry.json'')
     = Some (Registry_json \<lparr>models = [example_info ''v1'' 0.80], latest = Some ''v1''\<rparr>)"
    by (simp add: registry_v1_def example_trainer_def path_join_def)
  have u: "update_model_registry example_trainer registry_v1 (example_info ''v1'' 0.80)
     = (Inr (), registry_v1_v1, [Log_info (Msg_registry_updated ''v1'')])"
    using update_model_registry_present [where fs = registry_v1 and self = example_trainer
        and info = "example_info ''v1'' 0.80", OF f]
    by (simp add: py_sort_reverse_def registry_v1_v1_def registry_v1_def example_trainer_def
        path_join_def example_info_def)
  have d: "registry_v1_v1 \<noteq> registry_v1"
  proof
    assume "registry_v1_v1 = registry_v1"
    then have "registry_v1_v1 ''models/registry/registry.json'' = registry_v1 ''models/registry/registry.json''"
      by simp
    then show False by (simp add: registry_v1_v1_def registry_v1_def)
  qed
  from a u d show ?thesis by simp
qed

text \<open>
  Claim C2 as amended: \<open>_update_model_registry\<close> has no check of the identifier. On
  every registry that already holds the identifier of the new entry the append returns
  normally; the stored sequence is the old one with the new entry added, sorted again by
  accuracy, so it is one longer, the identifier occurs once more than before (at least
  twice), and \<open>latest\<close> is that identifier.
\<close>

theorem duplicate_append_is_stored:
  assumes "json_load_registry fs (path_join (trainer_registry_path self) ''registry.json'') = Inr registry"
    and "model_version info \<in> set (map model_version (models registry))"
  shows "fst (update_model_registry self fs info) = Inr ()
     \<and> json_load_registry (fst (snd (update_model_registry self fs info)))
           (path_join (trainer_registry_path self) ''registry.json'')
         = Inr \<lparr>models = py_sort_reverse val_accuracy (models registry @ [info]),
                 latest = Some (model_version info)\<rparr>
     \<and> set (py_sort_reverse val_accuracy (models registry @ [info])) = insert info (set (models registry))
     \<and> length (py_sort_reverse val_accuracy (models registry @ [info])) = Suc (length (models registry))
     \<and> length (filter (\<lambda>m. model_version m = model_version info)
                  (py_sort_reverse val_accuracy (models registry @ [info])))
         = Suc (length (filter (\<lambda>m. model_version m = model_version info) (models registry)))
     \<and> 2 \<le> length (filter (\<lambda>m. model_version m = model_version info)
                  (py_sort_reverse val_accuracy (models registry @ [info])))"
proof -
  let ?rf = "path_join (trainer_registry_path self) ''registry.json''"
  let ?same = "\<lambda>m. model_version m = model_version info"
  from assms(1) have f: "fs ?rf = Some (Registry_json registry)"
    by (auto simp: json_load_registry_def split: option.splits file_content.splits)
  have cnt: "length (filter ?same (py_sort_reverse val_accuracy (models registry @ [info])))
      = Suc (length (filter ?same (models registry)))"
    by (simp add: filter_py_sort_reverse length_py_sort_reverse)
  from assms(2) have "filter ?same (models registry) \<noteq> []"
    by (auto simp: filter_empty_conv)
  then have "1 \<le> length (filter ?same (models registry))"
    by (cases "filter ?same (models registry)") auto
  with cnt have two: "2 \<le> length (filter ?same (py_sort_reverse val_accuracy (models registry @ [info])))"
    by simp
  show ?thesis
    using update_model_registry_present [where fs = fs and self = self and info = info, OF f] cnt two
    by (simp add: json_load_registry_upd set_py_sort_reverse length_py_sort_reverse)
qed

text \<open>The amended claim C2 on the registry that holds v1, appending v1 again.\<close>

theorem duplicate_append_is_stored_witness:
  "fst (update_model_registry example_trainer registry_v1 (example_info ''v1'' 0.80)) = Inr ()
   \<and> json_load_registry
        (fst (snd (update_model_registry example_trainer registry_v1 (example_info ''v1'' 0.80))))
        ''models/registry/registry.json''
      = Inr \<lparr>models = [example_info ''v1'' 0.80, example_info ''v1'' 0.80], latest = Some ''v1''\<rparr>"
proof -
  have a: "json_load_registry registry_v1 (path_join (trainer_registry_path example_trainer) ''registry.json'')
     = Inr \<lparr>models = [example_info ''v1'' 0.80], latest = Some ''v1''\<rparr>"
    by (simp add: registry_v1_def json_load_registry_def example_trainer_def path_join_def)
  have b: "model_version (example_info ''v1'' 0.80)
     \<in> set (map model_version (models \<lparr>models = [example_info ''v1'' 0.80], latest = Some ''v1''\<rparr>))"
    by simp
  have v: "model_version (example_info ''v1'' 0.80) = ''v1''" by (simp add: example_info_def)
  have p: "path_join (trainer_registry_path example_trainer) ''registry.json'' = ''models/registry/registry.json''"
    by (simp add: example_trainer_def path_join_def)
  from duplicate_append_is_stored [OF a b]
  show ?thesis
    unfolding v p by (simp add: py_sort_reverse_def)
qed

section \<open>The loader step by step\<close>

lemma load_info_no_weights_file:
  assumes "\<not> exists fs (path_join (replace_backslash (model_path info)) ''model.keras'')"
  shows "load_model_from_info tv fs p info =
     (Inr False, p, [Log_info (Msg_loading (model_version info)),
        Log_error (Msg_model_file_missing (path_join (replace_backslash (model_path info)) ''model.keras''))])"
  using assms by (simp add: load_model_from_info_def load_model_from_info_try_def)

lemma load_info_weights_fail:
  assumes "exists fs (path_join (replace_backslash (model_path info)) ''model.keras'')"
    and "keras_load_model fs (path_join (replace_backslash (model_path info)) ''model.keras'') = Inl e"
  shows "load_model_from_info tv fs p info =
     (Inr False, p, [Log_info (Msg_loading (model_version info)), Log_error (Msg_load_failed e)])"
  using assms by (simp add: load_model_from_info_def load_model_from_info_try_def)

lemma keras_load_model_exists:
  "keras_load_model fs path = Inr m \<Longrightarrow> exists fs path"
  by (auto simp: keras_load_model_def exists_def split: option.splits)

lemma load_info_encoder_fail:
  assumes "keras_load_model fs (path_join (replace_backslash (model_path info)) ''model.keras'') = Inr m"
    and "pickle_load fs (path_join (replace_backslash (model_path info)) ''label_encoder.pkl'') = Inl e"
  shows "load_model_from_info tv fs p info =
     (Inr False, p\<lparr>model := Some m\<rparr>,
      [Log_info (Msg_loading (model_version info)), Log_error (Msg_load_failed e)])"
  using assms keras_load_model_exists [OF assms(1)]
  by (simp add: load_model_from_info_def load_model_from_info_try_def)

lemma load_info_config_fail:
  assumes "keras_load_model fs (path_join (replace_backslash (model_path info)) ''model.keras'') = Inr m"
    and "pickle_load fs (path_join (replace_backslash (model_path info)) ''label_encoder.pkl'') = Inr le"
    and "json_load_config fs (path_join (replace_backslash (model_path info)) ''vectorize_config.json'') = Inl e"
  shows "load_model_from_info tv fs p info =
     (Inr False, p\<lparr>model := Some m, label_encoder := Some le\<rparr>,
      [Log_info (Msg_loading (model_version info)), Log_error (Msg_load_failed e)])"
  using assms keras_load_model_exists [OF assms(1)]
  by (simp add: load_model_from_info_def load_model_from_info_try_def)




lemma load_best_model_selected:
  assumes "json_load_registry fs (path_join (model_registry_path p) ''registry.json'') = Inr registry"
    and "models registry = info # rest"
  shows "load_best_model tv fs p = load_model_from_info tv fs p info"
  using load_best_model_selects [of fs p registry tv] assms by simp

lemma json_load_registry_exists:
  "json_load_registry fs path = Inr r \<Longrightarrow> exists fs path"
  by (auto simp: json_load_registry_def exists_def split: option.splits)

lemma load_model_by_version_selected:
  assumes "json_load_registry fs (path_join (model_registry_path p) ''registry.json'') = Inr registry"
    and "find (\<lambda>model_info. model_version model_info = version) (models registry) = Some info"
  shows "load_model_by_version tv fs p version = load_model_from_info tv fs p info"
proof -
  obtain b p' ev where r: "load_model_from_info tv fs p info = (Inr b, p', ev)"
    using load_model_from_info_returns [of tv fs p info]
    by (cases "load_model_from_info tv fs p info") auto
  show ?thesis
    using r assms json_load_registry_exists [OF assms(1)]
    by (simp add: load_model_by_version_def load_model_by_version_try_def)
qed

section \<open>A load that fails half way\<close>

lemma example_files_registry:
  "json_load_registry example_files (path_join ''models/registry'' ''registry.json'') =
     Inr \<lparr>models = [example_info ''v2'' 0.92, example_info ''v1'' 0.80,
                     example_info ''v3'' 0.70, example_info ''v4'' 0.60, example_info ''v5'' 0.50],
           latest = Some ''v5''\<rparr>"
  by (simp add: example_files_def json_load_registry_def path_join_def)

lemma example_info_path:
  "path_join (replace_backslash (model_path (example_info [CHR ''v'', c] acc))) name
     = ''models/registry/v'' @ [if c = CHR 0x5C then CHR ''/'' else c] @ ''/'' @ name"
  by (simp add: example_info_def replace_backslash_def path_join_def)

lemma example_v3_weights:
  "keras_load_model example_files
     (path_join (replace_backslash (model_path (example_info ''v3'' 0.70))) ''model.keras'') = Inr other_model"
  by (simp add: example_info_path example_files_def keras_load_model_def)

lemma example_v3_encoder:
  "pickle_load example_files
     (path_join (replace_backslash (model_path (example_info ''v3'' 0.70))) ''label_encoder.pkl'')
   = Inl (FileNotFoundError ''models/registry/v3/label_encoder.pkl'')"
  by (simp add: example_info_path example_files_def
      pickle_load_def no_files_def)

text \<open>
  Claim C3 says that a load attempt that fails at any step leaves the installed state of
  the predictor as it was. Version v3 has weights but no label encoder: loading it into a
  fresh predictor returns \<^verbatim>\<open>False\<close>, and the field \<open>model\<close>, which was empty, now holds
  the weights of v3.
\<close>

theorem failed_load_counterexample:
  "load_model_by_version example_text_vectorization example_files (init_predictor ''models/registry'') ''v3''
     = (Inr False, (init_predictor ''models/registry'')\<lparr>model := Some other_model\<rparr>,
        [Log_info (Msg_loading ''v3''),
         Log_error (Msg_load_failed (FileNotFoundError ''models/registry/v3/label_encoder.pkl''))])
   \<and> model ((init_predictor ''models/registry'')\<lparr>model := Some other_model\<rparr>)
       \<noteq> model (init_predictor ''models/registry'')"
proof -
  let ?p = "init_predictor ''models/registry''"
  have reg: "json_load_registry example_files (path_join (model_registry_path ?p) ''registry.json'') =
     Inr \<lparr>models = [example_info ''v2'' 0.92, example_info ''v1'' 0.80,
                     example_info ''v3'' 0.70, example_info ''v4'' 0.60, example_info ''v5'' 0.50],
           latest = Some ''v5''\<rparr>"
    using example_files_registry by (simp add: init_predictor_def)
  have "load_model_by_version example_text_vectorization example_files ?p ''v3''
      = load_model_from_info example_text_vectorization example_files ?p (example_info ''v3'' 0.70)"
    by (rule load_model_by_version_selected [OF reg]) (simp add: example_info_def)
  also have "\<dots> = (Inr False, ?p\<lparr>model := Some other_model\<rparr>,
        [Log_info (Msg_loading (model_version (example_info ''v3'' 0.70))),
         Log_error (Msg_load_failed (FileNotFoundError ''models/registry/v3/label_encoder.pkl''))])"
    by (rule load_info_encoder_fail [OF example_v3_weights example_v3_encoder])
  finally show ?thesis by (simp add: example_info_def init_predictor_def)
qed

text \<open>
  Claim C3 as amended, for \<open>load_best_model\<close> and \<open>load_model_by_version\<close> once the
  registry has given them an entry. The attempt aborts at the first step that fails and
  returns \<^verbatim>\<open>False\<close>, and nothing is rolled back: with a missing weights file the state
  is the one before the attempt; with an unreadable label encoder the new model stays in
  \<open>model\<close> and every other field, the loaded flag included, is as before; with an
  unreadable tokenizer configuration the new model and the new label encoder stay and
  the configuration, the layer and the loaded flag are as before.
\<close>

theorem failed_load_partial_state:
  assumes "json_load_registry fs (path_join (model_registry_path p) ''registry.json'') = Inr registry"
    and "(\<exists>rest. models registry = info # rest) \<and> attempt = load_best_model tv fs p
       \<or> find (\<lambda>model_info. model_version model_info = version) (models registry) = Some info
           \<and> attempt = load_model_by_version tv fs p version"
  shows "(\<not> exists fs (path_join (replace_backslash (model_path info)) ''model.keras'')
            \<longrightarrow> fst attempt = Inr False \<and> fst (snd attempt) = p)
    \<and> (\<forall>m e. keras_load_model fs (path_join (replace_backslash (model_path info)) ''model.keras'') = Inr m
             \<and> pickle_load fs (path_join (replace_backslash (model_path info)) ''label_encoder.pkl'') = Inl e
            \<longrightarrow> fst attempt = Inr False \<and> fst (snd attempt) = p\<lparr>model := Some m\<rparr>)
    \<and> (\<forall>m le e. keras_load_model fs (path_join (replace_backslash (model_path info)) ''model.keras'') = Inr m
             \<and> pickle_load fs (path_join (replace_backslash (model_path info)) ''label_encoder.pkl'') = Inr le
             \<and> json_load_config fs (path_join (replace_backslash (model_path info)) ''vectorize_config.json'') = Inl e
            \<longrightarrow> fst attempt = Inr False
                \<and> fst (snd attempt) = p\<lparr>model := Some m, label_encoder := Some le\<rparr>)"
proof -
  have att: "attempt = load_model_from_info tv fs p info"
    using assms(2) load_best_model_selected [OF assms(1)] load_model_by_version_selected [OF assms(1)]
    by auto
  show ?thesis
    unfolding att
    by (auto simp: load_info_no_weights_file load_info_encoder_fail load_info_config_fail)
qed

text \<open>
  The amended claim C3 on a predictor that serves v1 and is asked for v3: the call fails,
  the predictor stays loaded and now pairs the weights of v3 with the label encoder of v1.
\<close>

theorem failed_load_partial_state_witness:
  "fst (load_model_by_version example_text_vectorization example_files predictor_v1 ''v3'') = Inr False
   \<and> fst (snd (load_model_by_version example_text_vectorization example_files predictor_v1 ''v3''))
       = predictor_v1\<lparr>model := Some other_model\<rparr>
   \<and> loaded (predictor_v1\<lparr>model := Some other_model\<rparr>)
   \<and> label_encoder (predictor_v1\<lparr>model := Some other_model\<rparr>) = Some example_encoder"
proof -
  let ?reg = "\<lparr>models = [example_info ''v2'' 0.92, example_info ''v1'' 0.80,
                     example_info ''v3'' 0.70, example_info ''v4'' 0.60, example_info ''v5'' 0.50],
           latest = Some ''v5''\<rparr>"
  have reg: "json_load_registry example_files (path_join (model_registry_path predictor_v1) ''registry.json'') =
     Inr ?reg"
    using example_files_registry by (simp add: predictor_v1_def)
  have sel: "(\<exists>rest. models ?reg = example_info ''v3'' 0.70 # rest)
        \<and> load_model_by_version example_text_vectorization example_files predictor_v1 ''v3''
            = load_best_model example_text_vectorization example_files predictor_v1
     \<or> find (\<lambda>model_info. model_version model_info = ''v3'') (models ?reg) = Some (example_info ''v3'' 0.70)
        \<and> load_model_by_version example_text_vectorization example_files predictor_v1 ''v3''
            = load_model_by_version example_text_vectorization example_files predictor_v1 ''v3''"
    by (simp add: example_info_def)
  from failed_load_partial_state [OF reg sel] example_v3_weights example_v3_encoder
  have "fst (load_model_by_version example_text_vectorization example_files predictor_v1 ''v3'') = Inr False
   \<and> fst (snd (load_model_by_version example_text_vectorization example_files predictor_v1 ''v3''))
       = predictor_v1\<lparr>model := Some other_model\<rparr>"
    by blast
  then show ?thesis by (simp add: predictor_v1_def)
qed

section \<open>Missing artifact files\<close>

lemma pickle_load_missing:
  "\<not> exists fs path \<Longrightarrow> pickle_load fs path = Inl (FileNotFoundError path)"
  by (simp add: exists_def pickle_load_def)

lemma json_load_config_missing:
  "\<not> exists fs path \<Longrightarrow> json_load_config fs path = Inl (FileNotFoundError path)"
  by (simp add: exists_def json_load_config_def)

lemma load_info_missing_file_fails:
  assumes "\<not> exists fs (path_join (replace_backslash (model_path info)) ''model.keras'')
         \<or> \<not> exists fs (path_join (replace_backslash (model_path info)) ''label_encoder.pkl'')
         \<or> \<not> exists fs (path_join (replace_backslash (model_path info)) ''vectorize_config.json'')"
  shows "fst (load_model_from_info tv fs p info) = Inr False
       \<and> loaded (fst (snd (load_model_from_info tv fs p info))) = loaded p"
proof (cases "exists fs (path_join (replace_backslash (model_path info)) ''model.keras'')")
  case False
  then show ?thesis by (simp add: load_info_no_weights_file)
next
  case ex: True
  show ?thesis
  proof (cases "keras_load_model fs (path_join (replace_backslash (model_path info)) ''model.keras'')")
    case (Inl e)
    then show ?thesis by (simp add: load_info_weights_fail [OF ex])
  next
    case m: (Inr m)
    show ?thesis
    proof (cases "pickle_load fs (path_join (replace_backslash (model_path info)) ''label_encoder.pkl'')")
      case (Inl e)
      then show ?thesis by (simp add: load_info_encoder_fail [OF m])
    next
      case le: (Inr le)
      then have "exists fs (path_join (replace_backslash (model_path info)) ''label_encoder.pkl'')"
        by (auto simp: pickle_load_def exists_def split: option.splits)
      with assms ex
      have "\<not> exists fs (path_join (replace_backslash (model_path info)) ''vectorize_config.json'')"
        by blast
      from json_load_config_missing [OF this] show ?thesis
        by (simp add: load_info_config_fail [OF m le])
    qed
  qed
qed

text \<open>
  Claim C7 says that the loader verifies the existence of the three artifact files and
  that a missing one makes it fail with ArtifactMissing naming that artifact. Version v4
  has neither a label encoder nor a tokenizer configuration, and weights that do not
  load: the loader fails on the weights and reports that error; the two missing files are
  never looked at and nothing names them.
\<close>

theorem missing_artifact_counterexample:
  "\<not> exists example_files ''models/registry/v4/label_encoder.pkl''
   \<and> \<not> exists example_files ''models/registry/v4/vectorize_config.json''
   \<and> load_model_from_info example_text_vectorization example_files
        (init_predictor ''models/registry'') (example_info ''v4'' 0.60)
      = (Inr False, init_predictor ''models/registry'',
         [Log_info (Msg_loading ''v4''),
          Log_error (Msg_load_failed (FrameworkError ''models/registry/v4/model.keras''))])"
proof -
  have a: "\<not> exists example_files ''models/registry/v4/label_encoder.pkl''"
    and b: "\<not> exists example_files ''models/registry/v4/vectorize_config.json''"
    by (simp_all add: exists_def example_files_def no_files_def)
  have ex: "exists example_files
     (path_join (replace_backslash (model_path (example_info ''v4'' 0.60))) ''model.keras'')"
    by (simp add: example_info_path example_files_def exists_def)
  have w: "keras_load_model example_files
     (path_join (replace_backslash (model_path (example_info ''v4'' 0.60))) ''model.keras'')
     = Inl (FrameworkError ''models/registry/v4/model.keras'')"
    by (simp add: example_info_path example_files_def keras_load_model_def)
  from load_info_weights_fail [OF ex w] a b show ?thesis
    by (simp add: example_info_def)
qed

text \<open>
  Claim C7 as amended. Only the weights file is checked for existence, before anything is
  loaded: when it is missing the loader logs its path, returns \<^verbatim>\<open>False\<close> and leaves the
  predictor untouched. The label encoder and the tokenizer configuration are opened
  without a check: when one of them is missing and the steps before it succeeded, the
  loader returns \<^verbatim>\<open>False\<close>, logs the \<^verbatim>\<open>FileNotFoundError\<close> that names the file, and keeps
  the fields assigned by the steps before. In every case a missing file among the three
  makes the load return \<^verbatim>\<open>False\<close> with the loaded flag as before.
\<close>

theorem missing_artifact_fails_when_reached:
  "(\<not> exists fs (path_join (replace_backslash (model_path info)) ''model.keras'')
      \<longrightarrow> load_model_from_info tv fs p info =
           (Inr False, p,
            [Log_info (Msg_loading (model_version info)),
             Log_error (Msg_model_file_missing
               (path_join (replace_backslash (model_path info)) ''model.keras''))]))
   \<and> (\<forall>m. keras_load_model fs (path_join (replace_backslash (model_path info)) ''model.keras'') = Inr m
         \<and> \<not> exists fs (path_join (replace_backslash (model_path info)) ''label_encoder.pkl'')
      \<longrightarrow> load_model_from_info tv fs p info =
           (Inr False, p\<lparr>model := Some m\<rparr>,
            [Log_info (Msg_loading (model_version info)),
             Log_error (Msg_load_failed (FileNotFoundError
               (path_join (replace_backslash (model_path info)) ''label_encoder.pkl'')))]))
   \<and> (\<forall>m le. keras_load_model fs (path_join (replace_backslash (model_path info)) ''model.keras'') = Inr m
         \<and> pickle_load fs (path_join (replace_backslash (model_path info)) ''label_encoder.pkl'') = Inr le
         \<and> \<not> exists fs (path_join (replace_backslash (model_path info)) ''vectorize_config.json'')
      \<longrightarrow> load_model_from_info tv fs p info =
           (Inr False, p\<lparr>model := Some m, label_encoder := Some le\<rparr>,
            [Log_info (Msg_loading (model_version info)),
             Log_error (Msg_load_failed (FileNotFoundError
               (path_join (replace_backslash (model_path info)) ''vectorize_config.json'')))]))
   \<and> (\<not> exists fs (path_join (replace_backslash (model_path info)) ''model.keras'')
       \<or> \<not> exists fs (path_join (replace_backslash (model_path info)) ''label_encoder.pkl'')
       \<or> \<not> exists fs (path_join (replace_backslash (model_path info)) ''vectorize_config.json'')
      \<longrightarrow> fst (load_model_from_info tv fs p info) = Inr False
          \<and> loaded (fst (snd (load_model_from_info tv fs p info))) = loaded p)"
proof (intro conjI allI impI)
  assume "\<not> exists fs (path_join (replace_backslash (model_path info)) ''model.keras'')"
  then show "load_model_from_info tv fs p info =
           (Inr False, p,
            [Log_info (Msg_loading (model_version info)),
             Log_error (Msg_model_file_missing
               (path_join (replace_backslash (model_path info)) ''model.keras''))])"
    by (rule load_info_no_weights_file)
next
  fix m
  assume "keras_load_model fs (path_join (replace_backslash (model_path info)) ''model.keras'') = Inr m
         \<and> \<not> exists fs (path_join (replace_backslash (model_path info)) ''label_encoder.pkl'')"
  then show "load_model_from_info tv fs p info =
           (Inr False, p\<lparr>model := Some m\<rparr>,
            [Log_info (Msg_loading (model_version info)),
             Log_error (Msg_load_failed (FileNotFoundError
               (path_join (replace_backslash (model_path info)) ''label_encoder.pkl'')))])"
    by (simp add: load_info_encoder_fail pickle_load_missing)
next
  fix m le
  assume "keras_load_model fs (path_join (replace_backslash (model_path info)) ''model.keras'') = Inr m
         \<and> pickle_load fs (path_join (replace_backslash (model_path info)) ''label_encoder.pkl'') = Inr le
         \<and> \<not> exists fs (path_join (replace_backslash (model_path info)) ''vectorize_config.json'')"
  then show "load_model_from_info tv fs p info =
           (Inr False, p\<lparr>model := Some m, label_encoder := Some le\<rparr>,
            [Log_info (Msg_loading (model_version info)),
             Log_error (Msg_load_failed (FileNotFoundError
               (path_join (replace_backslash (model_path info)) ''vectorize_config.json'')))])"
    by (simp add: load_info_config_fail json_load_config_missing)
next
  assume a: "\<not> exists fs (path_join (replace_backslash (model_path info)) ''model.keras'')
       \<or> \<not> exists fs (path_join (replace_backslash (model_path info)) ''label_encoder.pkl'')
       \<or> \<not> exists fs (path_join (replace_backslash (model_path info)) ''vectorize_config.json'')"
  from load_info_missing_file_fails [OF a]
  show "fst (load_model_from_info tv fs p info) = Inr False"
    and "loaded (fst (snd (load_model_from_info tv fs p info))) = loaded p"
    by simp_all
qed

text \<open>
  The amended claim C7 on version v5, which has no tokenizer configuration.
\<close>

theorem missing_artifact_fails_when_reached_witness:
  "\<not> exists example_files ''models/registry/v5/vectorize_config.json''
   \<and> load_model_from_info example_text_vectorization example_files
        (init_predictor ''models/registry'') (example_info ''v5'' 0.50)
      = (Inr False,
         (init_predictor ''models/registry'')\<lparr>model := Some other_model, label_encoder := Some other_encoder\<rparr>,
         [Log_info (Msg_loading ''v5''),
          Log_error (Msg_load_failed (FileNotFoundError ''models/registry/v5/vectorize_config.json''))])"
proof -
  let ?info = "example_info ''v5'' 0.50"
  have w: "keras_load_model example_files
     (path_join (replace_backslash (model_path ?info)) ''model.keras'') = Inr other_model"
    by (simp add: example_info_path example_files_def keras_load_model_def)
  have l: "pickle_load example_files
     (path_join (replace_backslash (model_path ?info)) ''label_encoder.pkl'') = Inr other_encoder"
    by (simp add: example_info_path example_files_def pickle_load_def)
  have c: "\<not> exists example_files (path_join (replace_backslash (model_path ?info)) ''vectorize_config.json'')"
    by (simp add: example_info_path example_files_def exists_def no_files_def)
  have pth: "path_join (replace_backslash (model_path ?info)) ''vectorize_config.json''
      = ''models/registry/v5/vectorize_config.json''"
    by (simp add: example_info_path)
  have v: "model_version ?info = ''v5''" by (simp add: example_info_def)
  from missing_artifact_fails_when_reached
    [of example_files ?info example_text_vectorization "init_predictor ''models/registry''"]
    w l c
  have "load_model_from_info example_text_vectorization example_files
        (init_predictor ''models/registry'') ?info
      = (Inr False,
         (init_predictor ''models/registry'')\<lparr>model := Some other_model, label_encoder := Some other_encoder\<rparr>,
         [Log_info (Msg_loading (model_version ?info)),
          Log_error (Msg_load_failed (FileNotFoundError
            (path_join (replace_backslash (model_path ?info)) ''vectorize_config.json'')))])"
    by blast
  with c show ?thesis unfolding pth v by simp
qed

section \<open>The outcomes of the two load operations\<close>



lemma load_best_model_no_registry:
  "\<not> exists fs (path_join (model_registry_path p) ''registry.json'') \<Longrightarrow>
   load_best_model tv fs p = (Inr False, p, [Log_error Msg_registry_missing])"
  by (simp add: load_best_model_def load_best_model_try_def)

lemma load_model_by_version_no_registry:
  "\<not> exists fs (path_join (model_registry_path p) ''registry.json'') \<Longrightarrow>
   load_model_by_version tv fs p version = (Inr False, p, [Log_error Msg_registry_missing])"
  by (simp add: load_model_by_version_def load_model_by_version_try_def)

lemma load_best_model_bad_registry:
  "exists fs (path_join (model_registry_path p) ''registry.json'') \<Longrightarrow>
   json_load_registry fs (path_join (model_registry_path p) ''registry.json'') = Inl e \<Longrightarrow>
   load_best_model tv fs p = (Inr False, p, [Log_error (Msg_load_best_failed e)])"
  by (simp add: load_best_model_def load_best_model_try_def)

lemma load_model_by_version_bad_registry:
  "exists fs (path_join (model_registry_path p) ''registry.json'') \<Longrightarrow>
   json_load_registry fs (path_join (model_registry_path p) ''registry.json'') = Inl e \<Longrightarrow>
   load_model_by_version tv fs p version =
     (Inr False, p, [Log_error (Msg_load_version_failed version e)])"
  by (simp add: load_model_by_version_def load_model_by_version_try_def)















section \<open>Reading the registry; predicting without a model\<close>

lemma get_available_models_no_registry:
  "\<not> exists fs (path_join (model_registry_path p) ''registry.json'') \<Longrightarrow>
   get_available_models fs p = (Inr [], [])"
  by (simp add: get_available_models_def)

lemma get_available_models_bad_registry:
  "exists fs (path_join (model_registry_path p) ''registry.json'') \<Longrightarrow>
   json_load_registry fs (path_join (model_registry_path p) ''registry.json'') = Inl e \<Longrightarrow>
   get_available_models fs p = (Inr [], [Log_error (Msg_list_failed e)])"
  by (simp add: get_available_models_def)

lemma trainer_load_best_model_no_registry:
  "\<not> exists fs (path_join (trainer_registry_path tr) ''registry.json'') \<Longrightarrow>
   trainer_load_best_model tr fs = (Inl (FileNotFoundError ''registry''), tr, [])"
  by (simp add: trainer_load_best_model_def)

lemma trainer_load_best_model_bad_registry:
  "exists fs (path_join (trainer_registry_path tr) ''registry.json'') \<Longrightarrow>
   json_load_registry fs (path_join (trainer_registry_path tr) ''registry.json'') = Inl e \<Longrightarrow>
   trainer_load_best_model tr fs = (Inl e, tr, [])"
  by (simp add: trainer_load_best_model_def)

lemma update_model_registry_bad_registry:
  "exists fs (path_join (trainer_registry_path tr) ''registry.json'') \<Longrightarrow>
   json_load_registry fs (path_join (trainer_registry_path tr) ''registry.json'') = Inl e \<Longrightarrow>
   update_model_registry tr fs info = (Inl e, fs, [])"
  by (simp add: update_model_registry_def)

text \<open>
  Claim C4 says that every operation that loads the registry fails with RegistryNotFound
  when the file is missing and with RegistryCorrupt when it cannot be parsed, and never
  answers with an empty list of models. \<open>get_available_models\<close> answers with the empty
  list in both cases, and without a word to the logger when the file is missing.
\<close>

theorem registry_errors_counterexample:
  "get_available_models no_files (init_predictor ''models/registry'') = (Inr [], [])
   \<and> get_available_models corrupt_registry (init_predictor ''models/registry'')
       = (Inr [], [Log_error (Msg_list_failed JSONDecodeError)])"
  by (simp add: get_available_models_def init_predictor_def path_join_def exists_def
      no_files_def corrupt_registry_def json_load_registry_def)

text \<open>
  Claim C4 as amended: each operation that reads the registry file has its own answer to
  a missing file and to a file that cannot be read. \<open>load_best_model\<close> and
  \<open>load_model_by_version\<close> of the predictor log an error, return \<^verbatim>\<open>False\<close> and leave the
  predictor as it was. \<open>get_available_models\<close> returns the empty list in both cases (it
  logs only the unreadable file). \<open>ModelTrainer.load_best_model\<close> raises
  \<^verbatim>\<open>FileNotFoundError\<close> for a missing file and lets the reading error through.
  \<open>_update_model_registry\<close> starts an empty registry when the file is missing and lets
  the reading error through, without writing.
\<close>

theorem registry_errors_by_operation:
  fixes p :: model_predictor and tr :: model_trainer
  defines "rf \<equiv> path_join (model_registry_path p) ''registry.json''"
    and "trf \<equiv> path_join (trainer_registry_path tr) ''registry.json''"
  shows "(\<not> exists fs rf \<longrightarrow>
            load_best_model tv fs p = (Inr False, p, [Log_error Msg_registry_missing])
          \<and> load_model_by_version tv fs p version = (Inr False, p, [Log_error Msg_registry_missing])
          \<and> get_available_models fs p = (Inr [], []))
    \<and> (\<forall>e. exists fs rf \<and> json_load_registry fs rf = Inl e \<longrightarrow>
            load_best_model tv fs p = (Inr False, p, [Log_error (Msg_load_best_failed e)])
          \<and> load_model_by_version tv fs p version
              = (Inr False, p, [Log_error (Msg_load_version_failed version e)])
          \<and> get_available_models fs p = (Inr [], [Log_error (Msg_list_failed e)]))
    \<and> (\<not> exists fs trf \<longrightarrow>
            trainer_load_best_model tr fs = (Inl (FileNotFoundError ''registry''), tr, [])
          \<and> update_model_registry tr fs info
              = (Inr (), fs(trf \<mapsto> Registry_json \<lparr>models = [info], latest = Some (model_version info)\<rparr>),
                 [Log_info (Msg_registry_updated (model_version info))]))
    \<and> (\<forall>e. exists fs trf \<and> json_load_registry fs trf = Inl e \<longrightarrow>
            trainer_load_best_model tr fs = (Inl e, tr, [])
          \<and> update_model_registry tr fs info = (Inl e, fs, []))"
proof (intro conjI allI impI, goal_cases)
  case 1
  then show ?case unfolding rf_def by (rule load_best_model_no_registry)
next
  case 2
  then show ?case unfolding rf_def by (rule load_model_by_version_no_registry)
next
  case 3
  then show ?case unfolding rf_def by (rule get_available_models_no_registry)
next
  case (4 e)
  then show ?case unfolding rf_def by (simp add: load_best_model_bad_registry)
next
  case (5 e)
  then show ?case unfolding rf_def by (simp add: load_model_by_version_bad_registry)
next
  case (6 e)
  then show ?case unfolding rf_def by (simp add: get_available_models_bad_registry)
next
  case 7
  then show ?case unfolding trf_def by (rule trainer_load_best_model_no_registry)
next
  case 8
  then show ?case unfolding trf_def by (rule update_model_registry_fresh)
next
  case (9 e)
  then show ?case unfolding trf_def by (simp add: trainer_load_best_model_bad_registry)
next
  case (10 e)
  then show ?case unfolding trf_def by (simp add: update_model_registry_bad_registry)
qed

text \<open>
  The amended claim C4 on a registry file that is no JSON: the predictor's
  \<open>load_best_model\<close> returns \<^verbatim>\<open>False\<close>, the trainer's raises, and the append raises and
  writes nothing.
\<close>

theorem registry_errors_by_operation_witness:
  "load_best_model example_text_vectorization corrupt_registry (init_predictor ''models/registry'')
     = (Inr False, init_predictor ''models/registry'', [Log_error (Msg_load_best_failed JSONDecodeError)])
   \<and> trainer_load_best_model example_trainer corrupt_registry = (Inl JSONDecodeError, example_trainer, [])
   \<and> update_model_registry example_trainer corrupt_registry (example_info ''v1'' 0.80)
       = (Inl JSONDecodeError, corrupt_registry, [])
   \<and> trainer_load_best_model example_trainer no_files
       = (Inl (FileNotFoundError ''registry''), example_trainer, [])"
proof -
  let ?p = "init_predictor ''models/registry''"
  have ex: "exists corrupt_registry (path_join (model_registry_path ?p) ''registry.json'')"
    by (simp add: exists_def corrupt_registry_def init_predictor_def path_join_def)
  have bad: "json_load_registry corrupt_registry (path_join (model_registry_path ?p) ''registry.json'')
      = Inl JSONDecodeError"
    by (simp add: json_load_registry_def corrupt_registry_def init_predictor_def path_join_def)
  have ex': "exists corrupt_registry (path_join (trainer_registry_path example_trainer) ''registry.json'')"
    by (simp add: exists_def corrupt_registry_def example_trainer_def path_join_def)
  have bad': "json_load_registry corrupt_registry (path_join (trainer_registry_path example_trainer) ''registry.json'')
      = Inl JSONDecodeError"
    by (simp add: json_load_registry_def corrupt_registry_def example_trainer_def path_join_def)
  have ne: "\<not> exists no_files (path_join (trainer_registry_path example_trainer) ''registry.json'')"
    by (simp add: exists_def no_files_def)
  note T = registry_errors_by_operation
    [of corrupt_registry ?p example_text_vectorization "''v1''" example_trainer "example_info ''v1'' 0.80"]
  note A = T [THEN conjunct2, THEN conjunct1, rule_format, OF conjI [OF ex bad], THEN conjunct1]
  note B = T [THEN conjunct2, THEN conjunct2, THEN conjunct2, rule_format, OF conjI [OF ex' bad']]
  note T' = registry_errors_by_operation
    [of no_files ?p example_text_vectorization "''v1''" example_trainer "example_info ''v1'' 0.80"]
  note C = T' [THEN conjunct2, THEN conjunct2, THEN conjunct1, rule_format, OF ne, THEN conjunct1]
  from A B C show ?thesis by simp
qed

text \<open>
  Claim C5: on a predictor whose loaded flag is false, \<open>predict\<close> and \<open>predict_batch\<close>
  raise the \<^verbatim>\<open>RuntimeError\<close> of the guard for every text and every list of texts, and
  neither the vectorisation layer nor the model is called.
\<close>

theorem predict_unloaded_fails:
  assumes "\<not> loaded self"
  shows "predict self start_time end_time txt = (Inl RuntimeError_not_loaded, [])
       \<and> predict_batch self start_time end_time texts = (Inl RuntimeError_not_loaded, [])"
  using assms by (simp add: predict_def predict_batch_def)

text \<open>Claim C5 on a fresh predictor, whose loaded flag is false.\<close>

theorem predict_unloaded_fails_witness:
  "\<not> loaded (init_predictor ''models/registry'')
   \<and> predict (init_predictor ''models/registry'') 0 1 ''abc'' = (Inl RuntimeError_not_loaded, [])
   \<and> predict_batch (init_predictor ''models/registry'') 0 1 [''abc'', ''de'']
       = (Inl RuntimeError_not_loaded, [])"
proof -
  have n: "\<not> loaded (init_predictor ''models/registry'')" by (simp add: init_predictor_def)
  from predict_unloaded_fails [OF n, of 0 1 "''abc''" "[''abc'', ''de'']"] n
  show ?thesis by simp
qed

section \<open>One row of the model output\<close>

lemma np_argmax_Inr:
  assumes "row \<noteq> []"
  shows "\<exists>idx. np_argmax row = Inr idx \<and> idx < length row \<and> row ! idx = Max (set row)
           \<and> (\<forall>x \<in> set row. x \<le> row ! idx)"
proof -
  let ?P = "\<lambda>x. x \<noteq> Max (set row)"
  let ?idx = "length (takeWhile ?P row)"
  have "Max (set row) \<in> set row" using assms by (intro Max_in) auto
  then have "\<not> (\<forall>x \<in> set row. ?P x)" by blast
  then have "takeWhile ?P row \<noteq> row" by (simp add: takeWhile_eq_all_conv)
  then have lt: "?idx < length row"
    by (metis length_takeWhile_le le_neq_implies_less takeWhile_eq_take take_all order_refl)
  from nth_length_takeWhile [OF lt] have mx: "row ! ?idx = Max (set row)" by simp
  have "\<forall>x \<in> set row. x \<le> row ! ?idx" unfolding mx by simp
  with lt mx assms show ?thesis by (simp add: np_argmax_def)
qed

lemma np_argmax_empty: "np_argmax [] = Inl ValueError"
  by (simp add: np_argmax_def)

lemma update_fresh:
  "c \<notin> fst ` set al \<Longrightarrow> AList.update c v al = al @ [(c, v)]"
  by (induction al) auto

lemma zip_take_right: "zip xs (take (length xs) ys) = zip xs ys"
proof (induction xs arbitrary: ys)
  case Nil
  then show ?case by simp
next
  case (Cons x xs)
  then show ?case by (cases ys) simp_all
qed

lemma fill_class_probabilities_Inr:
  assumes "fill_class_probabilities acc i cs row = Inr probs"
    and "distinct cs" and "set cs \<inter> fst ` set acc = {}"
  shows "(cs \<noteq> [] \<longrightarrow> i + length cs \<le> length row) \<and> probs = acc @ zip cs (drop i row)"
  using assms
proof (induction cs arbitrary: acc i)
  case Nil
  then show ?case by simp
next
  case (Cons c cs)
  from Cons.prems(1) have lt: "i < length row"
    and rec: "fill_class_probabilities (AList.update c (row ! i) acc) (Suc i) cs row = Inr probs"
    by (auto split: if_splits)
  from Cons.prems(3) have fresh: "c \<notin> fst ` set acc" by auto
  have upd: "AList.update c (row ! i) acc = acc @ [(c, row ! i)]"
    by (rule update_fresh [OF fresh])
  have disj: "set cs \<inter> fst ` set (AList.update c (row ! i) acc) = {}"
    using Cons.prems(2,3) unfolding upd by auto
  from Cons.prems(2) have d: "distinct cs" by simp
  from Cons.IH [OF rec d disj]
  have a: "cs \<noteq> [] \<longrightarrow> Suc i + length cs \<le> length row"
    and b: "probs = AList.update c (row ! i) acc @ zip cs (drop (Suc i) row)"
    by simp_all
  have dr: "drop i row = row ! i # drop (Suc i) row"
    using lt by (simp add: Cons_nth_drop_Suc)
  from a lt have "i + length (c # cs) \<le> length row" by (cases cs) auto
  moreover have "probs = acc @ zip (c # cs) (drop i row)"
    unfolding b upd dr by simp
  ultimately show ?case by simp
qed

lemma fill_class_probabilities_ok:
  assumes "i + length cs \<le> length row"
  shows "\<exists>probs. fill_class_probabilities acc i cs row = Inr probs"
  using assms by (induction cs arbitrary: acc i) auto

lemma process_row_Inr:
  assumes "process_row le row = Inr (predicted, conf, probs)"
  shows "\<exists>cs idx. le = Some (LabelEncoder (Some cs)) \<and> row \<noteq> [] \<and> np_argmax row = Inr idx
           \<and> idx < length cs \<and> predicted = cs ! idx \<and> conf = row ! idx
           \<and> fill_class_probabilities [] 0 cs row = Inr probs"
proof -
  from assms obtain idx where idx: "np_argmax row = Inr idx"
    by (cases "np_argmax row") (auto simp: process_row_def)
  then have ne: "row \<noteq> []" by (auto simp: np_argmax_def split: if_splits)
  from assms idx obtain enc where enc: "le = Some enc"
    by (cases le) (auto simp: process_row_def inverse_transform_def)
  from assms idx enc obtain cs where cs: "encoder_classes enc = Some cs"
    by (cases "encoder_classes enc") (auto simp: process_row_def inverse_transform_def)
  then have le: "le = Some (LabelEncoder (Some cs))" using enc by (cases enc) simp
  from assms idx enc cs have "idx < length cs \<and> predicted = cs ! idx \<and> conf = row ! idx
           \<and> fill_class_probabilities [] 0 cs row = Inr probs"
    by (auto simp: process_row_def inverse_transform_def get_classes_def Let_def
        split: if_splits sum.splits)
  with le ne idx show ?thesis by blast
qed

lemma process_row_ok:
  assumes "row \<noteq> []" and "length row = length cs"
  shows "\<exists>res. process_row (Some (LabelEncoder (Some cs))) row = Inr res"
proof -
  from np_argmax_Inr [OF assms(1)] obtain idx where
    idx: "np_argmax row = Inr idx" and lt: "idx < length row" by blast
  from fill_class_probabilities_ok [of 0 cs row "[]"] assms(2) obtain probs where
    "fill_class_probabilities [] 0 cs row = Inr probs" by auto
  with idx lt assms(2) show ?thesis
    by (simp add: process_row_def inverse_transform_def get_classes_def)
qed

lemma process_row_distinct:
  assumes "process_row (Some (LabelEncoder (Some cs))) row = Inr (predicted, conf, probs)"
    and "distinct cs"
  shows "length cs \<le> length row" and "probs = zip cs row"
    and "map fst probs = cs" and "map snd probs = take (length cs) row"
    and "map_of probs predicted = Some conf"
    and "\<forall>c v. map_of probs c = Some v \<longrightarrow> v \<le> conf"
    and "predicted \<in> set cs"
proof -
  from process_row_Inr [OF assms(1)] obtain idx where
    ne: "row \<noteq> []" and idx: "np_argmax row = Inr idx" and lt: "idx < length cs"
    and p: "predicted = cs ! idx" and c: "conf = row ! idx"
    and f: "fill_class_probabilities [] 0 cs row = Inr probs"
    by auto
  from fill_class_probabilities_Inr [OF f assms(2)] have
    len': "cs \<noteq> [] \<longrightarrow> length cs \<le> length row" and pr: "probs = zip cs row"
    by simp_all
  from len' show len: "length cs \<le> length row" by (cases cs) auto
  show "probs = zip cs row" by (rule pr)
  have z: "zip cs row = zip cs (take (length cs) row)"
    by (simp add: zip_take_right)
  show "map fst probs = cs" unfolding pr using len by (simp add: map_fst_zip_take min_def)
  show snd: "map snd probs = take (length cs) row"
    unfolding pr using len by (simp add: map_snd_zip_take min_def)
  have "map_of (zip cs (take (length cs) row)) (cs ! idx) = Some (take (length cs) row ! idx)"
    using len lt assms(2) by (intro map_of_zip_nth) auto
  then show "map_of probs predicted = Some conf"
    unfolding pr z p c using lt by simp
  from np_argmax_Inr [OF ne] idx have mx: "\<forall>x \<in> set row. x \<le> row ! idx" by auto
  show "\<forall>c v. map_of probs c = Some v \<longrightarrow> v \<le> conf"
  proof (intro allI impI)
    fix k v assume "map_of probs k = Some v"
    then have "(k, v) \<in> set (zip cs row)" unfolding pr by (rule map_of_SomeD)
    then have "v \<in> set row" by (rule set_zip_rightD)
    with mx show "v \<le> conf" unfolding c by blast
  qed
  show "predicted \<in> set cs" unfolding p using lt by simp
qed

section \<open>A single prediction\<close>

lemma predict_Inr:
  assumes "predict self start_time end_time txt = (Inr r, ev)"
  shows "\<exists>layer vt m preds row predicted conf probs.
       loaded self \<and> vectorize_layer self = Some layer \<and> call_layer layer [txt] = Inr vt
     \<and> model self = Some m \<and> model_predict m vt = Inr (row # preds)
     \<and> process_row (label_encoder self) row = Inr (predicted, conf, probs)
     \<and> r = \<lparr>item_text = txt, predicted_class = predicted, confidence = conf,
              class_probabilities = probs, processing_time = end_time - start_time\<rparr>
     \<and> ev = [Call_vectorize [txt], Call_model_predict vt]"
proof -
  from assms have ld: "loaded self" by (auto simp: predict_def split: if_splits)
  with assms have t: "predict_try self start_time end_time txt = (Inr r, ev)"
    by (auto simp: predict_def split: prod.splits sum.splits)
  from t obtain layer where layer: "vectorize_layer self = Some layer"
    by (cases "vectorize_layer self") (auto simp: predict_try_def)
  from t layer obtain vt where vt: "call_layer layer [txt] = Inr vt"
    by (cases "call_layer layer [txt]") (auto simp: predict_try_def)
  from t layer vt obtain m where m: "model self = Some m"
    by (cases "model self") (auto simp: predict_try_def)
  from t layer vt m obtain ps where ps: "model_predict m vt = Inr ps"
    by (cases "model_predict m vt") (auto simp: predict_try_def Let_def)
  from t layer vt m ps obtain row preds where rw: "ps = row # preds"
    by (cases ps) (auto simp: predict_try_def Let_def nth_row_def)
  from t layer vt m ps rw obtain res where res: "process_row (label_encoder self) row = Inr res"
    by (cases "process_row (label_encoder self) row") (auto simp: predict_try_def Let_def nth_row_def)
  obtain predicted conf probs where tr: "res = (predicted, conf, probs)" by (cases res) auto
  from t layer vt m ps rw res tr
  have "r = \<lparr>item_text = txt, predicted_class = predicted, confidence = conf,
              class_probabilities = probs, processing_time = end_time - start_time\<rparr>
     \<and> ev = [Call_vectorize [txt], Call_model_predict vt]"
    by (auto simp: predict_try_def Let_def nth_row_def)
  with ld layer vt m ps rw res tr show ?thesis by blast
qed

lemma predict_ok:
  assumes "loaded self" and "vectorize_layer self = Some layer" and "call_layer layer [txt] = Inr vt"
    and "model self = Some m" and "model_predict m vt = Inr (row # preds)"
    and "process_row (label_encoder self) row = Inr (predicted, conf, probs)"
  shows "predict self start_time end_time txt =
     (Inr \<lparr>item_text = txt, predicted_class = predicted, confidence = conf,
            class_probabilities = probs, processing_time = end_time - start_time\<rparr>,
      [Call_vectorize [txt], Call_model_predict vt])"
  using assms by (simp add: predict_def predict_try_def nth_row_def)

text \<open>
  Claim C6 says that the class probabilities of every prediction that is returned sum to
  1 within 1e-3. The predictor returns the output vector of the model as it is: with a
  model whose output is the vector (0.5, 0.2) the prediction is returned and its
  probabilities sum to 0.7.
\<close>

theorem probabilities_sum_counterexample:
  "predict predictor_unnormalised 0 1 ''abc'' =
     (Inr \<lparr>item_text = ''abc'', predicted_class = ''a'', confidence = 0.5,
            class_probabilities = [(''a'', 0.5), (''b'', 0.2)], processing_time = 1\<rparr>,
      [Call_vectorize [''abc''], Call_model_predict [[3]]])
   \<and> \<not> \<bar>sum_list (map snd [(''a'', 0.5 :: real), (''b'', 0.2)]) - 1\<bar> \<le> 1 / 1000"
proof -
  have pr: "process_row (label_encoder predictor_unnormalised) [0.5, 0.2]
      = Inr (''a'', 0.5, [(''a'', 0.5), (''b'', 0.2)])"
    by (simp add: process_row_def np_argmax_def inverse_transform_def get_classes_def
        predictor_unnormalised_def example_encoder_def)
  have "predict predictor_unnormalised 0 1 ''abc'' =
     (Inr \<lparr>item_text = ''abc'', predicted_class = ''a'', confidence = 0.5,
            class_probabilities = [(''a'', 0.5), (''b'', 0.2)], processing_time = 1 - 0\<rparr>,
      [Call_vectorize [''abc''], Call_model_predict [[3]]])"
  proof (rule predict_ok [OF _ _ _ _ _ pr])
    show "loaded predictor_unnormalised" by (simp add: predictor_unnormalised_def)
    show "vectorize_layer predictor_unnormalised = Some example_layer"
      by (simp add: predictor_unnormalised_def)
    show "call_layer example_layer [''abc''] = Inr [[3]]" by (simp add: example_layer_def)
    show "model predictor_unnormalised = Some unnormalised_model"
      by (simp add: predictor_unnormalised_def)
    show "model_predict unnormalised_model [[3]] = Inr [[0.5, 0.2]]"
      by (simp add: unnormalised_model_def)
  qed
  then show ?thesis by simp
qed

text \<open>
  Claim C6 as amended, for a predictor whose label list has no duplicates. In every
  prediction that is returned the class probabilities have one entry for each known
  label, in the order of the labels, and their values are the first entries of the output
  vector of the model; \<open>predicted_class\<close> is a known label, the mapping gives it the
  probability \<open>confidence\<close>, and no label has a higher one (it is the argmax label).
  The predictor does not normalise: the probabilities sum to 1 within 1e-3 when the
  output vector has as many entries as there are labels and itself sums to 1 within 1e-3.
\<close>

theorem prediction_result_consistent:
  assumes "predict self start_time end_time txt = (Inr r, ev)"
    and "label_encoder self = Some (LabelEncoder (Some cs))"
    and "distinct cs"
  shows "map fst (class_probabilities r) = cs
    \<and> predicted_class r \<in> set cs
    \<and> map_of (class_probabilities r) (predicted_class r) = Some (confidence r)
    \<and> (\<forall>c v. map_of (class_probabilities r) c = Some v \<longrightarrow> v \<le> confidence r)
    \<and> (\<forall>layer vt m row preds.
          vectorize_layer self = Some layer \<and> call_layer layer [txt] = Inr vt
        \<and> model self = Some m \<and> model_predict m vt = Inr (row # preds)
        \<longrightarrow> map snd (class_probabilities r) = take (length cs) row
          \<and> (length row = length cs \<and> \<bar>sum_list row - 1\<bar> \<le> 1 / 1000
               \<longrightarrow> \<bar>sum_list (map snd (class_probabilities r)) - 1\<bar> \<le> 1 / 1000))"
proof -
  from predict_Inr [OF assms(1)] obtain layer vt m preds row predicted conf probs where
    layer: "vectorize_layer self = Some layer" and vt: "call_layer layer [txt] = Inr vt"
    and m: "model self = Some m" and ps: "model_predict m vt = Inr (row # preds)"
    and pr: "process_row (label_encoder self) row = Inr (predicted, conf, probs)"
    and r: "r = \<lparr>item_text = txt, predicted_class = predicted, confidence = conf,
              class_probabilities = probs, processing_time = end_time - start_time\<rparr>"
    by blast
  from pr have pr': "process_row (Some (LabelEncoder (Some cs))) row = Inr (predicted, conf, probs)"
    unfolding assms(2) .
  note D = process_row_distinct [OF pr' assms(3)]
  have a: "map fst (class_probabilities r) = cs" unfolding r using D(3) by simp
  have b: "predicted_class r \<in> set cs" unfolding r using D(7) by simp
  have c: "map_of (class_probabilities r) (predicted_class r) = Some (confidence r)"
    unfolding r using D(5) by simp
  have d: "\<forall>c v. map_of (class_probabilities r) c = Some v \<longrightarrow> v \<le> confidence r"
    unfolding r using D(6) by simp
  have e: "map snd (class_probabilities r) = take (length cs) row'
          \<and> (length row' = length cs \<and> \<bar>sum_list row' - 1\<bar> \<le> 1 / 1000
               \<longrightarrow> \<bar>sum_list (map snd (class_probabilities r)) - 1\<bar> \<le> 1 / 1000)"
    if "vectorize_layer self = Some layer' \<and> call_layer layer' [txt] = Inr vt'
        \<and> model self = Some m' \<and> model_predict m' vt' = Inr (row' # preds')"
    for layer' vt' m' row' preds'
  proof -
    from that layer vt m ps have "row' = row" by simp
    then have "map snd (class_probabilities r) = take (length cs) row'"
      unfolding r using D(4) by simp
    then show ?thesis by simp
  qed
  from a b c d e show ?thesis by blast
qed

text \<open>
  The amended claim C6 on the predictor that serves v1: the output (0.2, 0.8) gives the
  class b with confidence 0.8, and the probabilities sum to 1.
\<close>

theorem prediction_result_consistent_witness:
  "predict predictor_v1 0 1 ''abc'' =
     (Inr \<lparr>item_text = ''abc'', predicted_class = ''b'', confidence = 0.8,
            class_probabilities = [(''a'', 0.2), (''b'', 0.8)], processing_time = 1\<rparr>,
      [Call_vectorize [''abc''], Call_model_predict [[3]]])
   \<and> map_of [(''a'', 0.2 :: real), (''b'', 0.8)] ''b'' = Some 0.8
   \<and> \<bar>sum_list (map snd [(''a'', 0.2 :: real), (''b'', 0.8)]) - 1\<bar> \<le> 1 / 1000"
proof -
  let ?r = "\<lparr>item_text = ''abc'', predicted_class = ''b'', confidence = 0.8,
            class_probabilities = [(''a'', 0.2), (''b'', 0.8)], processing_time = 1 :: real\<rparr>"
  have pr: "process_row (label_encoder predictor_v1) [0.2, 0.8]
      = Inr (''b'', 0.8, [(''a'', 0.2), (''b'', 0.8)])"
    by (simp add: process_row_def np_argmax_def inverse_transform_def get_classes_def
        predictor_v1_def example_encoder_def)
  have "predict predictor_v1 0 1 ''abc'' =
     (Inr \<lparr>item_text = ''abc'', predicted_class = ''b'', confidence = 0.8,
            class_probabilities = [(''a'', 0.2), (''b'', 0.8)], processing_time = 1 - 0\<rparr>,
      [Call_vectorize [''abc''], Call_model_predict [[3]]])"
  proof (rule predict_ok [OF _ _ _ _ _ pr])
    show "loaded predictor_v1" by (simp add: predictor_v1_def)
    show "vectorize_layer predictor_v1 = Some example_layer" by (simp add: predictor_v1_def)
    show "call_layer example_layer [''abc''] = Inr [[3]]" by (simp add: example_layer_def)
    show "model predictor_v1 = Some example_model" by (simp add: predictor_v1_def)
    show "model_predict example_model [[3]] = Inr [[0.2, 0.8]]" by (simp add: example_model_def)
  qed
  then have run: "predict predictor_v1 0 1 ''abc'' = (Inr ?r, [Call_vectorize [''abc''], Call_model_predict [[3]]])"
    by simp
  have le: "label_encoder predictor_v1 = Some (LabelEncoder (Some [''a'', ''b'']))"
    by (simp add: predictor_v1_def example_encoder_def)
  have d: "distinct [''a'', ''b'']" by simp
  have l: "vectorize_layer predictor_v1 = Some example_layer \<and> call_layer example_layer [''abc''] = Inr [[3]]
        \<and> model predictor_v1 = Some example_model \<and> model_predict example_model [[3]] = Inr ([0.2, 0.8] # [])"
    by (simp add: predictor_v1_def example_layer_def example_model_def)
  note T = prediction_result_consistent [OF run le d]
  note S = T [THEN conjunct2, THEN conjunct2, THEN conjunct2, THEN conjunct2, rule_format, OF l,
      THEN conjunct2, rule_format]
  have "\<bar>sum_list (map snd (class_probabilities ?r)) - 1\<bar> \<le> 1 / 1000"
    by (rule S) simp
  moreover from T have "map_of (class_probabilities ?r) (predicted_class ?r) = Some (confidence ?r)"
    by blast
  ultimately show ?thesis using run by simp
qed

section \<open>Batch prediction\<close>

lemma batch_loop_Inr:
  assumes "batch_loop le preds i texts = Inr rs"
  shows "length rs = length texts
     \<and> (\<forall>j < length texts. i + j < length preds
           \<and> (\<exists>predicted conf probs.
                 process_row le (preds ! (i + j)) = Inr (predicted, conf, probs)
               \<and> rs ! j = \<lparr>item_text = texts ! j, predicted_class = predicted,
                            confidence = conf, class_probabilities = probs\<rparr>))"
  using assms
proof (induction "texts" arbitrary: i rs)
  case Nil
  then show ?case by simp
next
  case (Cons t texts)
  from Cons.prems have lt: "i < length preds"
    by (auto simp: nth_row_def split: if_splits)
  with Cons.prems obtain res where res: "process_row le (preds ! i) = Inr res"
    by (cases "process_row le (preds ! i)") (auto simp: nth_row_def)
  obtain predicted conf probs where tr: "res = (predicted, conf, probs)" by (cases res) auto
  from Cons.prems lt res tr obtain rest where
    rest: "batch_loop le preds (Suc i) texts = Inr rest"
    and rs: "rs = \<lparr>item_text = t, predicted_class = predicted,
                   confidence = conf, class_probabilities = probs\<rparr> # rest"
    by (cases "batch_loop le preds (Suc i) texts") (auto simp: nth_row_def)
  from Cons.IH [OF rest] have len: "length rest = length texts"
    and tl: "\<forall>j < length texts. Suc i + j < length preds
           \<and> (\<exists>predicted conf probs.
                 process_row le (preds ! (Suc i + j)) = Inr (predicted, conf, probs)
               \<and> rest ! j = \<lparr>item_text = texts ! j, predicted_class = predicted,
                              confidence = conf, class_probabilities = probs\<rparr>)"
    by simp_all
  have "i + j < length preds
           \<and> (\<exists>predicted conf probs.
                 process_row le (preds ! (i + j)) = Inr (predicted, conf, probs)
               \<and> rs ! j = \<lparr>item_text = (t # texts) ! j, predicted_class = predicted,
                            confidence = conf, class_probabilities = probs\<rparr>)"
    if "j < length (t # texts)" for j
  proof (cases j)
    case 0
    then show ?thesis using lt res tr rs by simp
  next
    case (Suc k)
    with that have "k < length texts" by simp
    with tl Suc show ?thesis unfolding rs by simp
  qed
  with len rs show ?case by simp
qed


lemma batch_loop_ok:
  assumes "\<forall>j < length texts. i + j < length preds \<and> (\<exists>res. process_row le (preds ! (i + j)) = Inr res)"
  shows "\<exists>rs. batch_loop le preds i texts = Inr rs"
  using assms
proof (induction "texts" arbitrary: i)
  case Nil
  then show ?case by simp
next
  case (Cons t texts)
  from Cons.prems have "i + 0 < length preds \<and> (\<exists>res. process_row le (preds ! (i + 0)) = Inr res)"
    by (metis length_greater_0_conv list.distinct(1))
  then obtain res where lt: "i < length preds" and res: "process_row le (preds ! i) = Inr res"
    by auto
  have "\<forall>j < length texts. Suc i + j < length preds \<and> (\<exists>res. process_row le (preds ! (Suc i + j)) = Inr res)"
  proof (intro allI impI)
    fix j assume "j < length texts"
    then have "Suc j < length (t # texts)" by simp
    with Cons.prems have "i + Suc j < length preds \<and> (\<exists>res. process_row le (preds ! (i + Suc j)) = Inr res)"
      by blast
    then show "Suc i + j < length preds \<and> (\<exists>res. process_row le (preds ! (Suc i + j)) = Inr res)"
      by simp
  qed
  from Cons.IH [OF this] obtain rest where "batch_loop le preds (Suc i) texts = Inr rest" by blast
  with lt res show ?case by (cases res) (simp add: nth_row_def)
qed


lemma predict_batch_ok:
  assumes "loaded self" and "vectorize_layer self = Some layer" and "call_layer layer texts = Inr vts"
    and "model self = Some m" and "model_predict m vts = Inr pb"
    and "batch_loop (label_encoder self) pb 0 texts = Inr rs"
  shows "predict_batch self start_time end_time texts =
     (Inr \<lparr>results = rs, total_texts = length texts,
            batch_processing_time = end_time - start_time\<rparr>,
      [Call_vectorize texts, Call_model_predict vts])"
  using assms by (simp add: predict_batch_def predict_batch_try_def)






text \<open>
  Claim C8 says that every request with more than 100 texts fails with
  BatchSizeExceeded. The endpoint tests the loaded flag first: on a predictor without a
  model a request with 101 texts fails with the status 503 of a model that is not loaded.
\<close>

theorem batch_limit_counterexample:
  "request_101 ''texts'' = Some (replicate 101 ''a'')
   \<and> length (replicate 101 ''a'') > 100
   \<and> predict_batch_endpoint (init_predictor ''models/registry'') request_101 0 1 ''now''
       = (Inl (HTTPException 503 Detail_not_loaded), [])"
  by (simp add: request_101_def predict_batch_endpoint_def predict_batch_endpoint_try_def
      init_predictor_def)

text \<open>
  Claim C8 as amended. A request with more than 100 texts fails at the batch endpoint
  before the layer or the model is called: with the status 400 of the batch limit when a
  model is loaded, with the status 503 when none is. \<open>predict_batch\<close> of the predictor
  has no limit: on a loaded predictor whose layer and model answer with one well-shaped
  row for each text, it returns one entry for each of these texts.
\<close>

theorem batch_limit_at_endpoint:
  assumes "request ''texts'' = Some texts" and "length texts > 100"
  shows "(loaded predictor \<longrightarrow>
            predict_batch_endpoint predictor request start_time end_time now
              = (Inl (HTTPException 400 Detail_batch_limit), []))
    \<and> (\<not> loaded predictor \<longrightarrow>
            predict_batch_endpoint predictor request start_time end_time now
              = (Inl (HTTPException 503 Detail_not_loaded), []))
    \<and> (\<forall>layer m cs vts pb.
          loaded predictor \<and> vectorize_layer predictor = Some layer \<and> model predictor = Some m
        \<and> label_encoder predictor = Some (LabelEncoder (Some cs))
        \<and> call_layer layer texts = Inr vts \<and> model_predict m vts = Inr pb
        \<and> length texts \<le> length pb \<and> (\<forall>row \<in> set pb. row \<noteq> [] \<and> length row = length cs)
        \<longrightarrow> (\<exists>rs. predict_batch predictor start_time end_time texts
                    = (Inr \<lparr>results = rs, total_texts = length texts,
                             batch_processing_time = end_time - start_time\<rparr>,
                       [Call_vectorize texts, Call_model_predict vts])
                 \<and> length rs = length texts))"
proof (intro conjI allI impI, goal_cases)
  case 1
  with assms show ?case
    by (simp add: predict_batch_endpoint_def predict_batch_endpoint_try_def)
next
  case 2
  then show ?case
    by (simp add: predict_batch_endpoint_def predict_batch_endpoint_try_def)
next
  case (3 layer m cs vts pb)
  then have ld: "loaded predictor" and ly: "vectorize_layer predictor = Some layer"
    and m: "model predictor = Some m"
    and le: "label_encoder predictor = Some (LabelEncoder (Some cs))"
    and vts: "call_layer layer texts = Inr vts" and pb: "model_predict m vts = Inr pb"
    and len: "length texts \<le> length pb"
    and rows: "\<forall>row \<in> set pb. row \<noteq> [] \<and> length row = length cs"
    by simp_all
  have "\<forall>j < length texts. 0 + j < length pb
          \<and> (\<exists>res. process_row (label_encoder predictor) (pb ! (0 + j)) = Inr res)"
  proof (intro allI impI)
    fix j assume "j < length texts"
    with len have j: "j < length pb" by simp
    then have "pb ! j \<in> set pb" by simp
    with rows have "pb ! j \<noteq> []" "length (pb ! j) = length cs" by simp_all
    from process_row_ok [OF this] j
    show "0 + j < length pb \<and> (\<exists>res. process_row (label_encoder predictor) (pb ! (0 + j)) = Inr res)"
      unfolding le by simp
  qed
  from batch_loop_ok [OF this] obtain rs where
    rs: "batch_loop (label_encoder predictor) pb 0 texts = Inr rs" by blast
  from batch_loop_Inr [OF rs] have "length rs = length texts" by simp
  with predict_batch_ok [OF ld ly vts m pb rs, of start_time end_time] show ?case by blast
qed

text \<open>
  The amended claim C8 on the predictor that serves v1 and a request with 101 texts: the
  endpoint answers with the status 400 and calls nothing, while \<open>predict_batch\<close> itself
  takes the 101 texts.
\<close>

theorem batch_limit_at_endpoint_witness:
  "predict_batch_endpoint predictor_v1 request_101 0 1 ''now''
     = (Inl (HTTPException 400 Detail_batch_limit), [])
   \<and> map_sum id total_texts (fst (predict_batch predictor_v1 0 1 (replicate 101 ''a''))) = Inr 101"
proof -
  let ?texts = "replicate 101 ''a''"
  have r: "request_101 ''texts'' = Some ?texts" by (simp add: request_101_def)
  have n: "length ?texts > 100" by simp
  have ld: "loaded predictor_v1" by (simp add: predictor_v1_def)
  note T = batch_limit_at_endpoint [where request = request_101 and texts = ?texts
      and predictor = predictor_v1 and start_time = 0 and end_time = 1 and now = "''now''", OF r n]
  note A = T [THEN conjunct1, rule_format, OF ld]
  have h: "loaded predictor_v1 \<and> vectorize_layer predictor_v1 = Some example_layer
        \<and> model predictor_v1 = Some example_model
        \<and> label_encoder predictor_v1 = Some (LabelEncoder (Some [''a'', ''b'']))
        \<and> call_layer example_layer ?texts = Inr (replicate 101 [1])
        \<and> model_predict example_model (replicate 101 [1]) = Inr (replicate 101 [0.2, 0.8])
        \<and> length ?texts \<le> length (replicate 101 [0.2, 0.8 :: real])
        \<and> (\<forall>row \<in> set (replicate 101 [0.2, 0.8 :: real]). row \<noteq> [] \<and> length row = length [''a'', ''b''])"
    by (simp add: predictor_v1_def example_layer_def example_model_def example_encoder_def)
  note B = T [THEN conjunct2, THEN conjunct2, rule_format, OF h]
  from B have "map_sum id total_texts (fst (predict_batch predictor_v1 0 1 ?texts)) = Inr 101"
    by auto
  with A show ?thesis by simp
qed

end
